(* ===== verification/Prelude.thy ===== *)
theory Prelude
  imports Complex_Main "HOL-Library.Multiset"
begin

text \<open>
  Shared vocabulary of the portfolio development: the JavaScript notions the
  TypeScript sources rely on and that every component model uses.
  \<^item> \<open>js_error\<close>: the exceptions the code can raise or observe
    (\<open>TypeError\<close> from a failed \<open>fetch\<close>, \<open>SyntaxError\<close> from
    \<open>Response.json()\<close>, \<open>RangeError\<close> from date formatting);
  \<^item> \<open>'s completion\<close>: the completion of a statement that threads a state
    \<open>'s\<close>, either normal or abrupt by a thrown error, together with the state
    reached at that point (JavaScript never rolls back effects);
  \<^item> \<open>then_c\<close> and \<open>try_catch_finally\<close>: sequencing and the
    \<^verbatim>\<open>try { } catch (err) { } finally { }\<close> statement over completions;
  \<^item> truthiness of the optional (\<open>?:\<close>) string and boolean fields of the
    data model: \<open>undefined\<close>/\<open>null\<close> is \<open>None\<close>, and the empty
    string is falsy as well.
\<close>

named_theorems js_simps "evaluation rules of the JavaScript helper operations"

section \<open>Errors and completions\<close>

datatype js_error =
    TypeError string
  | SyntaxError string
  | RangeError string

datatype 's completion =
    Normal 's
  | Throw js_error 's

primrec state_of :: "'s completion \<Rightarrow> 's" where
  "state_of (Normal s) = s"
| "state_of (Throw e s) = s"

primrec then_c :: "'s completion \<Rightarrow> ('s \<Rightarrow> 's completion) \<Rightarrow> 's completion" where
  "then_c (Normal s) f = f s"
| "then_c (Throw e s) f = Throw e s"

text \<open>
  \<^verbatim>\<open>try { body } catch (e) { handler } finally { fin }\<close>: the handler runs on
  the state the body threw in; \<open>fin\<close> runs on every path and, completing
  normally itself, leaves the completion of the try/catch part as it was.
\<close>

definition try_catch_finally ::
  "('s \<Rightarrow> 's completion) \<Rightarrow> (js_error \<Rightarrow> 's \<Rightarrow> 's completion) \<Rightarrow> ('s \<Rightarrow> 's) \<Rightarrow>
   's \<Rightarrow> 's completion" where
  "try_catch_finally body handler fin s =
     (case (case body s of Normal s' \<Rightarrow> Normal s' | Throw e s' \<Rightarrow> handler e s') of
        Normal s'' \<Rightarrow> Normal (fin s'')
      | Throw e s'' \<Rightarrow> Throw e (fin s''))"

lemma then_c_Normal [simp]: "then_c c Normal = c"
  by (cases c) simp_all

lemma then_c_assoc: "then_c (then_c c f) g = then_c c (\<lambda>s. then_c (f s) g)"
  by (cases c) simp_all

lemma then_c_eq_Normal [simp]:
  "then_c c f = Normal t \<longleftrightarrow> (\<exists>s. c = Normal s \<and> f s = Normal t)"
  by (cases c) simp_all

lemma try_catch_finally_Normal [js_simps]:
  "body s = Normal s' \<Longrightarrow> try_catch_finally body handler fin s = Normal (fin s')"
  by (simp add: try_catch_finally_def)

lemma try_catch_finally_Throw [js_simps]:
  "body s = Throw e s' \<Longrightarrow> handler e s' = Normal s'' \<Longrightarrow>
   try_catch_finally body handler fin s = Normal (fin s'')"
  by (simp add: try_catch_finally_def)

text \<open>\<^verbatim>\<open>xs.map(f)\<close> where \<open>f\<close> may throw: the first error, or all results.\<close>

fun js_map_result :: "('a \<Rightarrow> js_error + 'b) \<Rightarrow> 'a list \<Rightarrow> js_error + 'b list" where
  "js_map_result f [] = Inr []"
| "js_map_result f (x # xs) =
     (case f x of Inl e \<Rightarrow> Inl e
      | Inr y \<Rightarrow> (case js_map_result f xs of Inl e \<Rightarrow> Inl e | Inr ys \<Rightarrow> Inr (y # ys)))"

lemma js_map_result_Inr_length: "js_map_result f xs = Inr ys \<Longrightarrow> length ys = length xs"
  by (induction xs arbitrary: ys) (auto split: sum.splits)

lemma js_map_result_Inr_nth:
  "js_map_result f xs = Inr ys \<Longrightarrow> i < length xs \<Longrightarrow> f (xs ! i) = Inr (ys ! i)"
proof (induction xs arbitrary: ys i)
  case Nil
  then show ?case by simp
next
  case (Cons x xs)
  then show ?case by (cases i) (auto split: sum.splits)
qed

lemma js_map_result_Inr_map:
  "js_map_result f xs = Inr ys \<Longrightarrow> (\<And>x y. f x = Inr y \<Longrightarrow> g y = h x) \<Longrightarrow> map g ys = map h xs"
  by (induction xs arbitrary: ys) (auto split: sum.splits)

lemma js_map_result_Inr_set:
  "js_map_result f xs = Inr ys \<Longrightarrow> y \<in> set ys \<Longrightarrow> \<exists>x\<in>set xs. f x = Inr y"
  by (induction xs arbitrary: ys) (auto split: sum.splits)

lemma js_map_result_Inl_iff:
  "(\<exists>e. js_map_result f xs = Inl e) \<longleftrightarrow> (\<exists>x\<in>set xs. \<exists>e. f x = Inl e)"
  by (induction xs) (auto split: sum.splits)

lemma bex_zip_upt:
  "(\<exists>p\<in>set (zip [0..<length xs] xs). P (snd p)) \<longleftrightarrow> (\<exists>x\<in>set xs. P x)"
proof -
  have "snd ` set (zip [0..<length xs] xs) = set xs"
    by (simp flip: set_map)
  then show ?thesis by (metis image_iff)
qed

lemma js_map_result_total:
  "(\<And>x. \<exists>y. f x = Inr y) \<Longrightarrow> js_map_result f xs = Inr (map (\<lambda>x. projr (f x)) xs)"
proof (induction xs)
  case (Cons x xs)
  from Cons.prems obtain y where "f x = Inr y" by blast
  with Cons show ?case by simp
qed simp

section \<open>Truthiness of optional fields\<close>

text \<open>
  An optional string field (\<open>email?: string\<close>) holds \<open>undefined\<close> (or the
  JSON \<open>null\<close> of the backend), modelled as \<open>None\<close>. In a JSX guard
  \<^verbatim>\<open>{x && ...}\<close> and in \<^verbatim>\<open>x || d\<close> both \<open>None\<close> and the empty string are falsy.
\<close>

fun js_truthy_str :: "string option \<Rightarrow> bool" where
  "js_truthy_str None = False"
| "js_truthy_str (Some s) = (s \<noteq> [])"

fun js_or_str :: "string option \<Rightarrow> string \<Rightarrow> string" where
  "js_or_str None d = d"
| "js_or_str (Some s) d = (if s = [] then d else s)"

fun js_truthy_bool :: "bool option \<Rightarrow> bool" where
  "js_truthy_bool None = False"
| "js_truthy_bool (Some b) = b"

lemma js_or_str_truthy [simp]:
  "js_truthy_str x \<Longrightarrow> js_or_str x d = the x"
  by (cases x) simp_all

lemma js_or_str_falsy [simp]:
  "\<not> js_truthy_str x \<Longrightarrow> js_or_str x d = d"
  by (cases x) simp_all

text \<open>The elements a JSX guard \<^verbatim>\<open>{x && <el/>}\<close> renders: none or one.\<close>

primrec opt_list :: "'a option \<Rightarrow> 'a list" where
  "opt_list None = []"
| "opt_list (Some x) = [x]"

lemma js_truthy_the [simp]: "js_truthy_str x \<Longrightarrow> the x \<noteq> []"
  by (cases x) simp_all

lemma opt_list_guarded [simp]:
  "u \<in> set (opt_list (if js_truthy_str x then x else None)) \<longleftrightarrow> x = Some u \<and> u \<noteq> []"
  by (cases x) auto

section \<open>Bounded quantifiers over the five resources\<close>

lemma ex_less_five: "(\<exists>k<(5::nat). P k) \<longleftrightarrow> P 0 \<or> P 1 \<or> P 2 \<or> P 3 \<or> P 4"
  by (auto simp: numeral_eq_Suc less_Suc_eq)

lemma all_less_five: "(\<forall>k<(5::nat). P k) \<longleftrightarrow> P 0 \<and> P 1 \<and> P 2 \<and> P 3 \<and> P 4"
  by (auto simp: numeral_eq_Suc less_Suc_eq)

section \<open>Lists\<close>

text \<open>Filtering by a predicate and by its negation splits a list without loss or duplication.\<close>

lemma mset_filter_partition:
  "mset (filter P xs) + mset (filter (\<lambda>x. \<not> P x) xs) = mset xs"
  by (induction xs) simp_all

lemma last_dropWhile_nonempty: "dropWhile P xs \<noteq> [] \<Longrightarrow> last (dropWhile P xs) = last xs"
  by (induction xs) auto

text \<open>Grouping by a key over a duplicate-free list covering all keys is a permutation.\<close>

lemma mset_concat_map_filter:
  "set (map f xs) \<subseteq> set cs \<Longrightarrow> distinct cs \<Longrightarrow>
   mset (concat (map (\<lambda>c. filter (\<lambda>x. f x = c) xs) cs)) = mset xs"
proof (induction cs arbitrary: xs)
  case Nil
  then show ?case by simp
next
  case (Cons c cs)
  let ?rest = "filter (\<lambda>x. f x \<noteq> c) xs"
  have same: "map (\<lambda>c'. filter (\<lambda>x. f x = c') xs) cs = map (\<lambda>c'. filter (\<lambda>x. f x = c') ?rest) cs"
    using Cons.prems(2) by (auto intro!: filter_cong)
  have "set (map f ?rest) \<subseteq> set cs"
    using Cons.prems(1) by auto
  then have rest: "mset (concat (map (\<lambda>c'. filter (\<lambda>x. f x = c') ?rest) cs)) = mset ?rest"
    using Cons.prems(2) by (intro Cons.IH) simp_all
  have "concat (map (\<lambda>c'. filter (\<lambda>x. f x = c') xs) (c # cs)) =
        filter (\<lambda>x. f x = c) xs @ concat (map (\<lambda>c'. filter (\<lambda>x. f x = c') ?rest) cs)"
    by (simp only: list.map(2) concat.simps(2) same)
  then show ?case
    by (simp only: mset_append rest mset_filter_partition)
qed

end
