(* ===== verification/Types.thy ===== *)
theory Types
  imports Prelude
begin

text \<open>
  The data model of \<^verbatim>\<open>src/frontend/src/types/portfolio.ts\<close>: one record per
  TypeScript interface. HOL field names are global constants, so each field carries
  the interface's name as prefix (\<open>skill_category\<close> is \<^verbatim>\<open>Skill.category\<close>).
  \<^verbatim>\<open>number\<close> is \<open>int\<close> for identifiers and \<open>real\<close> for the proficiency
  percentage; \<^verbatim>\<open>string\<close> is \<open>string\<close>; an optional member \<^verbatim>\<open>x?: T\<close> is
  \<open>T option\<close> (\<open>None\<close> for \<open>undefined\<close> and for the backend's \<open>null\<close>).
  The backend's JSON is not validated by the client (\<^verbatim>\<open>res.json()\<close> is stored as
  it is), so the model takes decoded payloads to be of the declared shape.
\<close>

record profile =
  profile_id :: int
  profile_fullName :: string
  profile_title :: string
  profile_bio :: string
  profile_profileImageUrl :: "string option"
  profile_email :: "string option"
  profile_phone :: "string option"
  profile_location :: "string option"
  profile_linkedinUrl :: "string option"
  profile_githubUrl :: "string option"
  profile_websiteUrl :: "string option"

record skill =
  skill_id :: int
  skill_name :: string
  skill_category :: string
  skill_iconUrl :: "string option"
  skill_proficiency :: real
  skill_description :: "string option"

record project =
  project_id :: int
  project_name :: string
  project_description :: string
  project_imageUrl :: "string option"
  project_githubUrl :: "string option"
  project_liveUrl :: "string option"
  project_technologies :: "string option"
  project_createdAt :: "string option"
  project_featured :: "bool option"

record hobby =
  hobby_id :: int
  hobby_name :: string
  hobby_description :: string
  hobby_imageUrl :: "string option"
  hobby_iconUrl :: "string option"

record experience =
  experience_id :: int
  experience_title :: string
  experience_company :: string
  experience_location :: "string option"
  experience_startDate :: "string option"
  experience_endDate :: "string option"
  experience_current :: "bool option"
  experience_description :: "string option"
  experience_companyLogoUrl :: "string option"

record contact_message =
  contact_name :: string
  contact_email :: string
  contact_subject :: "string option"
  contact_message :: string

record 'a api_response =
  api_data :: 'a
  api_success :: bool
  api_message :: "string option"

record portfolio_data =
  pd_profile :: "profile option"
  pd_skills :: "skill list"
  pd_projects :: "project list"
  pd_hobbies :: "hobby list"
  pd_experiences :: "experience list"

end
