(* ===== verification/Api.thy ===== *)
theory Api
  imports Prelude
begin

text \<open>
  \<^verbatim>\<open>src/frontend/src/constants/api.ts\<close>: the base address, the endpoint table
  \<^verbatim>\<open>API_ENDPOINTS\<close> (an object with seven keys, here a datatype of keys and a
  function from key to URL, each URL the template literal
  \<^verbatim>\<open>`${API_BASE_URL}/...`\<close>), and the \<^verbatim>\<open>HTTP_STATUS\<close> table (declared
  in the source and used by no other module).
\<close>

definition API_BASE_URL :: string where
  "API_BASE_URL = ''http://localhost:8080/api''"

datatype endpoint_key =
    PROFILE | SKILLS | PROJECTS | PROJECTS_FEATURED | HOBBIES | EXPERIENCES | CONTACTS

fun API_ENDPOINTS :: "endpoint_key \<Rightarrow> string" where
  "API_ENDPOINTS PROFILE = API_BASE_URL @ ''/profile''"
| "API_ENDPOINTS SKILLS = API_BASE_URL @ ''/skills''"
| "API_ENDPOINTS PROJECTS = API_BASE_URL @ ''/projects''"
| "API_ENDPOINTS PROJECTS_FEATURED = API_BASE_URL @ ''/projects/featured''"
| "API_ENDPOINTS HOBBIES = API_BASE_URL @ ''/hobbies''"
| "API_ENDPOINTS EXPERIENCES = API_BASE_URL @ ''/experiences''"
| "API_ENDPOINTS CONTACTS = API_BASE_URL @ ''/contacts''"

datatype http_status_key = OK | CREATED | BAD_REQUEST | NOT_FOUND | INTERNAL_SERVER_ERROR

fun HTTP_STATUS :: "http_status_key \<Rightarrow> nat" where
  "HTTP_STATUS OK = 200"
| "HTTP_STATUS CREATED = 201"
| "HTTP_STATUS BAD_REQUEST = 400"
| "HTTP_STATUS NOT_FOUND = 404"
| "HTTP_STATUS INTERNAL_SERVER_ERROR = 500"

end
