(* ===== verification/Fetch.thy ===== *)
theory Fetch
  imports Types Api
begin

text \<open>
  The browser services the data hook calls, modelled from their documented behaviour
  (they are not code of the repository): the Fetch API's \<^verbatim>\<open>Response\<close> with its
  \<^verbatim>\<open>ok\<close> flag (status 200 to 299), \<^verbatim>\<open>Response.json()\<close> which rejects with a
  \<^verbatim>\<open>SyntaxError\<close> on a malformed body, a \<^verbatim>\<open>fetch\<close> that rejects with a
  \<^verbatim>\<open>TypeError\<close> on a transport failure (and resolves on every HTTP status), and
  \<^verbatim>\<open>Promise.all\<close> over the five fetches of the hook, which resolves to the
  array of responses when all five resolve and rejects as soon as one rejects.
  The backend is a record \<open>server\<close> holding, for each of the five endpoints the
  hook requests, the outcome of \<^verbatim>\<open>fetch(API_ENDPOINTS.X)\<close>.
\<close>

datatype 'a json_body = Json 'a | Malformed_json

datatype 'a response = Response (res_status: nat) (res_body: "'a json_body")

definition res_ok :: "'a response \<Rightarrow> bool" where
  "res_ok r \<longleftrightarrow> 200 \<le> res_status r \<and> res_status r \<le> 299"

definition json_syntax_error :: js_error where
  "json_syntax_error = SyntaxError ''Unexpected token in JSON''"

definition fetch_type_error :: js_error where
  "fetch_type_error = TypeError ''Failed to fetch''"

text \<open>\<^verbatim>\<open>await res.json()\<close>: the decoded body, or the rejection of a malformed one.\<close>

primrec res_json :: "'a response \<Rightarrow> js_error + 'a" where
  "res_json (Response st b) =
     (case b of Json d \<Rightarrow> Inr d | Malformed_json \<Rightarrow> Inl json_syntax_error)"

datatype 'a fetch_outcome = Network_failure | Fulfilled "'a response"

primrec rejected :: "'a fetch_outcome \<Rightarrow> bool" where
  "rejected Network_failure = True"
| "rejected (Fulfilled r) = False"

record server =
  get_profile :: "profile option fetch_outcome"
  get_skills :: "skill list fetch_outcome"
  get_projects :: "project list fetch_outcome"
  get_hobbies :: "hobby list fetch_outcome"
  get_experiences :: "experience list fetch_outcome"

text \<open>The endpoint each field of \<open>server\<close> answers, in the order of the hook's array.\<close>

definition hook_endpoints :: "endpoint_key list" where
  "hook_endpoints = [PROFILE, SKILLS, PROJECTS, HOBBIES, EXPERIENCES]"

text \<open>The destructured result of \<^verbatim>\<open>Promise.all\<close>, named as in the hook.\<close>

record responses =
  profileRes :: "profile option response"
  skillsRes :: "skill list response"
  projectsRes :: "project list response"
  hobbiesRes :: "hobby list response"
  experiencesRes :: "experience list response"

text \<open>Whether the fetch at position \<open>k\<close> of the array rejects.\<close>

fun fetch_rejects :: "server \<Rightarrow> nat \<Rightarrow> bool" where
  "fetch_rejects b 0 = rejected (get_profile b)"
| "fetch_rejects b (Suc 0) = rejected (get_skills b)"
| "fetch_rejects b (Suc (Suc 0)) = rejected (get_projects b)"
| "fetch_rejects b (Suc (Suc (Suc 0))) = rejected (get_hobbies b)"
| "fetch_rejects b (Suc (Suc (Suc (Suc 0)))) = rejected (get_experiences b)"
| "fetch_rejects b _ = False"

definition promise_all :: "server \<Rightarrow> js_error + responses" where
  "promise_all b =
     (case (get_profile b, get_skills b, get_projects b, get_hobbies b, get_experiences b) of
        (Fulfilled r1, Fulfilled r2, Fulfilled r3, Fulfilled r4, Fulfilled r5) \<Rightarrow>
          Inr \<lparr>profileRes = r1, skillsRes = r2, projectsRes = r3, hobbiesRes = r4,
               experiencesRes = r5\<rparr>
      | _ \<Rightarrow> Inl fetch_type_error)"

definition any_fetch_rejects :: "server \<Rightarrow> bool" where
  "any_fetch_rejects b \<longleftrightarrow> (\<exists>k<5. fetch_rejects b k)"

lemma any_fetch_rejects_unfold:
  "any_fetch_rejects b \<longleftrightarrow>
     rejected (get_profile b) \<or> rejected (get_skills b) \<or> rejected (get_projects b) \<or>
     rejected (get_hobbies b) \<or> rejected (get_experiences b)"
  unfolding any_fetch_rejects_def ex_less_five by (simp add: eval_nat_numeral)

lemma promise_all_Inl:
  "promise_all b = Inl e \<longleftrightarrow> any_fetch_rejects b \<and> e = fetch_type_error"
  by (cases "get_profile b"; cases "get_skills b"; cases "get_projects b";
      cases "get_hobbies b"; cases "get_experiences b")
     (auto simp: promise_all_def any_fetch_rejects_unfold)

lemma promise_all_Inr_ex:
  "(\<exists>rs. promise_all b = Inr rs) \<longleftrightarrow> \<not> any_fetch_rejects b"
  by (cases "get_profile b"; cases "get_skills b"; cases "get_projects b";
      cases "get_hobbies b"; cases "get_experiences b")
     (auto simp: promise_all_def any_fetch_rejects_unfold)

lemma res_ok_status [simp]: "res_ok (Response st b) \<longleftrightarrow> 200 \<le> st \<and> st \<le> 299"
  by (simp add: res_ok_def)

end
