(* ===== verification/Hook.thy ===== *)
theory Hook
  imports Fetch
begin

text \<open>
  \<^verbatim>\<open>src/frontend/src/hooks/usePortfolioData.ts\<close>. The seven \<^verbatim>\<open>useState\<close>
  holders form the record \<open>portfolio_state\<close>; the setters are record updates. The
  async function \<^verbatim>\<open>fetchPortfolioData\<close> is modelled twice:
  \<^item> big-step, as the composition of its statements over completions
    (\<open>fetch_try_block\<close>, \<open>fetch_catch_block\<close>, \<open>fetch_finally_block\<close>,
    joined by \<open>try_catch_finally\<close>); \<open>usePortfolioData\<close> is the state after
    the single run of the effect (dependency list \<^verbatim>\<open>[]\<close>) from the initial holders;
  \<^item> small-step, as the relation \<open>cycle_step\<close> whose configurations are a program
    point and the holders, with one rule per statement and per suspension point. The
    five fetches settle in any order (one rule per settling fetch, chosen freely), so
    the relation covers every interleaving of the network responses.
  The closure never reads the holders it writes, so applying each setter when it is
  called gives the state React renders after the batch.
\<close>

record portfolio_state =
  profile :: "profile option"
  skills :: "skill list"
  projects :: "project list"
  hobbies :: "hobby list"
  experiences :: "experience list"
  loading :: bool
  error :: "string option"

definition initial_state :: portfolio_state where
  "initial_state =
     \<lparr>profile = None, skills = [], projects = [], hobbies = [], experiences = [],
      loading = True, error = None\<rparr>"

definition failed_msg :: string where
  "failed_msg = ''Failed to load portfolio data. Please try again later.''"

text \<open>The data part of the state, as the \<^verbatim>\<open>PortfolioData\<close> interface.\<close>

definition portfolio_data_of :: "portfolio_state \<Rightarrow> portfolio_data" where
  "portfolio_data_of s =
     \<lparr>pd_profile = profile s, pd_skills = skills s, pd_projects = projects s,
      pd_hobbies = hobbies s, pd_experiences = experiences s\<rparr>"

section \<open>The statements of the try block\<close>

text \<open>
  \<^verbatim>\<open>if (xRes.ok) { const xData = await xRes.json(); setX(xData) }\<close>: a non-ok
  response leaves the holder as it is; an ok one stores the decoded body, or throws
  the decoding error out of the try block, in the state reached so far.
\<close>

definition handle_response ::
  "'a response \<Rightarrow> ('a \<Rightarrow> portfolio_state \<Rightarrow> portfolio_state) \<Rightarrow> portfolio_state \<Rightarrow>
   portfolio_state completion" where
  "handle_response r set_data s =
     (if res_ok r then (case res_json r of Inl e \<Rightarrow> Throw e s | Inr d \<Rightarrow> Normal (set_data d s))
      else Normal s)"

text \<open>The five guarded blocks, in source order (profile, skills, projects, hobbies, experiences).\<close>

fun resolve_resource :: "nat \<Rightarrow> responses \<Rightarrow> portfolio_state \<Rightarrow> portfolio_state completion" where
  "resolve_resource 0 rs = handle_response (profileRes rs) (\<lambda>d s. s\<lparr>profile := d\<rparr>)"
| "resolve_resource (Suc 0) rs = handle_response (skillsRes rs) (\<lambda>d s. s\<lparr>skills := d\<rparr>)"
| "resolve_resource (Suc (Suc 0)) rs = handle_response (projectsRes rs) (\<lambda>d s. s\<lparr>projects := d\<rparr>)"
| "resolve_resource (Suc (Suc (Suc 0))) rs = handle_response (hobbiesRes rs) (\<lambda>d s. s\<lparr>hobbies := d\<rparr>)"
| "resolve_resource (Suc (Suc (Suc (Suc 0)))) rs =
     handle_response (experiencesRes rs) (\<lambda>d s. s\<lparr>experiences := d\<rparr>)"
| "resolve_resource _ rs = Normal"

definition handle_responses :: "responses \<Rightarrow> portfolio_state \<Rightarrow> portfolio_state completion" where
  "handle_responses rs s =
     then_c (resolve_resource 0 rs s) (\<lambda>s.
     then_c (resolve_resource 1 rs s) (\<lambda>s.
     then_c (resolve_resource 2 rs s) (\<lambda>s.
     then_c (resolve_resource 3 rs s) (\<lambda>s.
     resolve_resource 4 rs s))))"

definition fetch_try_block :: "server \<Rightarrow> portfolio_state \<Rightarrow> portfolio_state completion" where
  "fetch_try_block b s =
     (let s1 = s\<lparr>loading := True, error := None\<rparr> in
      case promise_all b of
        Inl e \<Rightarrow> Throw e s1
      | Inr rs \<Rightarrow> handle_responses rs s1)"

definition fetch_catch_block :: "js_error \<Rightarrow> portfolio_state \<Rightarrow> portfolio_state completion" where
  "fetch_catch_block e s = Normal (s\<lparr>error := Some failed_msg\<rparr>)"

definition fetch_finally_block :: "portfolio_state \<Rightarrow> portfolio_state" where
  "fetch_finally_block s = s\<lparr>loading := False\<rparr>"

definition fetchPortfolioData :: "server \<Rightarrow> portfolio_state \<Rightarrow> portfolio_state completion" where
  "fetchPortfolioData b =
     try_catch_finally (fetch_try_block b) fetch_catch_block fetch_finally_block"

definition usePortfolioData :: "server \<Rightarrow> portfolio_state" where
  "usePortfolioData b = state_of (fetchPortfolioData b initial_state)"

section \<open>What the hook promises\<close>

text \<open>
  The value a holder ends with when its response is used: the decoded body of an ok
  response, the initial default otherwise. \<open>decodes r\<close>: the response is not ok,
  or its body is well-formed JSON (so \<^verbatim>\<open>res.json()\<close> is either not called or
  resolves).
\<close>

definition accepted :: "'a response \<Rightarrow> 'a \<Rightarrow> 'a" where
  "accepted r d = (if res_ok r then (case res_body r of Json x \<Rightarrow> x | Malformed_json \<Rightarrow> d) else d)"

definition decodes :: "'a response \<Rightarrow> bool" where
  "decodes r \<longleftrightarrow> \<not> res_ok r \<or> res_body r \<noteq> Malformed_json"

definition responses_decode :: "responses \<Rightarrow> bool" where
  "responses_decode rs \<longleftrightarrow>
     decodes (profileRes rs) \<and> decodes (skillsRes rs) \<and> decodes (projectsRes rs) \<and>
     decodes (hobbiesRes rs) \<and> decodes (experiencesRes rs)"

text \<open>The cycle completes without reaching the catch block.\<close>

definition cycle_succeeds :: "server \<Rightarrow> bool" where
  "cycle_succeeds b = (case promise_all b of Inl e \<Rightarrow> False | Inr rs \<Rightarrow> responses_decode rs)"

section \<open>Sample backends\<close>

text \<open>
  Concrete backends for the scenarios of the specification: the profile endpoint
  answering 404, the profile fetch failing at the network level, and an ok skills
  response whose body is not JSON.
\<close>

definition sample_profile :: profile where
  "sample_profile =
     \<lparr>profile_id = 1, profile_fullName = ''Jane Doe'', profile_title = ''Engineer'',
      profile_bio = ''...'', profile_profileImageUrl = None, profile_email = None,
      profile_phone = None, profile_location = None, profile_linkedinUrl = None,
      profile_githubUrl = None, profile_websiteUrl = None\<rparr>"

definition sample_skill :: skill where
  "sample_skill =
     \<lparr>skill_id = 1, skill_name = ''Isabelle'', skill_category = ''Proof'', skill_iconUrl = None,
      skill_proficiency = 90, skill_description = None\<rparr>"

definition ok_fetch :: "'a \<Rightarrow> 'a fetch_outcome" where
  "ok_fetch d = Fulfilled (Response 200 (Json d))"

definition server_profile_404 :: server where
  "server_profile_404 =
     \<lparr>get_profile = Fulfilled (Response 404 Malformed_json), get_skills = ok_fetch [sample_skill],
      get_projects = ok_fetch [], get_hobbies = ok_fetch [], get_experiences = ok_fetch []\<rparr>"

definition server_profile_down :: server where
  "server_profile_down =
     \<lparr>get_profile = Network_failure, get_skills = ok_fetch [sample_skill],
      get_projects = ok_fetch [], get_hobbies = ok_fetch [], get_experiences = ok_fetch []\<rparr>"

definition server_skills_malformed :: server where
  "server_skills_malformed =
     \<lparr>get_profile = ok_fetch (Some sample_profile), get_skills = Fulfilled (Response 200 Malformed_json),
      get_projects = ok_fetch [], get_hobbies = ok_fetch [], get_experiences = ok_fetch []\<rparr>"

section \<open>Lemmas on the statements\<close>

lemma handle_response_malformed:
  "res_ok r \<Longrightarrow> res_body r = Malformed_json \<Longrightarrow> handle_response r f s = Throw json_syntax_error s"
  by (cases r) (simp add: handle_response_def)

lemma accepted_not_ok [simp]: "\<not> res_ok r \<Longrightarrow> accepted r d = d"
  by (simp add: accepted_def)

lemma handle_response_update:
  "decodes r \<Longrightarrow> (\<And>s. f (g s) s = s) \<Longrightarrow> handle_response r f s = Normal (f (accepted r (g s)) s)"
  by (cases r) (auto simp: handle_response_def decodes_def accepted_def split: json_body.splits)

lemma resolve_resource_decodes:
  "decodes (profileRes rs) \<Longrightarrow> resolve_resource 0 rs s = Normal (s\<lparr>profile := accepted (profileRes rs) (profile s)\<rparr>)"
  "decodes (skillsRes rs) \<Longrightarrow> resolve_resource 1 rs s = Normal (s\<lparr>skills := accepted (skillsRes rs) (skills s)\<rparr>)"
  "decodes (projectsRes rs) \<Longrightarrow> resolve_resource 2 rs s = Normal (s\<lparr>projects := accepted (projectsRes rs) (projects s)\<rparr>)"
  "decodes (hobbiesRes rs) \<Longrightarrow> resolve_resource 3 rs s = Normal (s\<lparr>hobbies := accepted (hobbiesRes rs) (hobbies s)\<rparr>)"
  "decodes (experiencesRes rs) \<Longrightarrow> resolve_resource 4 rs s = Normal (s\<lparr>experiences := accepted (experiencesRes rs) (experiences s)\<rparr>)"
  by (simp_all add: eval_nat_numeral; rule handle_response_update; simp)+

lemma handle_responses_decode:
  assumes "responses_decode rs"
  shows "handle_responses rs s =
    Normal (s\<lparr>profile := accepted (profileRes rs) (profile s), skills := accepted (skillsRes rs) (skills s),
      projects := accepted (projectsRes rs) (projects s), hobbies := accepted (hobbiesRes rs) (hobbies s),
      experiences := accepted (experiencesRes rs) (experiences s)\<rparr>)"
proof -
  from assms have d: "decodes (profileRes rs)" "decodes (skillsRes rs)" "decodes (projectsRes rs)"
    "decodes (hobbiesRes rs)" "decodes (experiencesRes rs)"
    by (simp_all add: responses_decode_def)
  show ?thesis
    unfolding handle_responses_def
    by (simp only: resolve_resource_decodes(1) [OF d(1)] resolve_resource_decodes(2) [OF d(2)]
        resolve_resource_decodes(3) [OF d(3)] resolve_resource_decodes(4) [OF d(4)]
        resolve_resource_decodes(5) [OF d(5)] then_c.simps) simp
qed

lemma initial_state_start [simp]: "initial_state\<lparr>loading := True, error := None\<rparr> = initial_state"
  by (simp add: initial_state_def)


lemma handle_response_eq:
  "handle_response r f s =
     (if res_ok r then (case res_body r of Json d \<Rightarrow> Normal (f d s) | Malformed_json \<Rightarrow> Throw json_syntax_error s)
      else Normal s)"
  by (cases r) (simp add: handle_response_def split: json_body.splits)

lemma handle_responses_Normal_iff:
  "(\<exists>s'. handle_responses rs s = Normal s') \<longleftrightarrow> responses_decode rs"
  by (auto simp: handle_responses_def handle_response_eq eval_nat_numeral responses_decode_def
      decodes_def split: json_body.splits if_splits)

lemma completion_cases_Throw: "(\<nexists>s'. c = Normal s') \<longleftrightarrow> (\<exists>e s'. c = Throw e s')"
  by (cases c) simp_all

lemma usePortfolioData_error:
  "error (usePortfolioData b) = (if cycle_succeeds b then None else Some failed_msg)"
proof (cases "promise_all b")
  case (Inl e)
  then show ?thesis
    by (simp add: cycle_succeeds_def usePortfolioData_def fetchPortfolioData_def fetch_try_block_def
        try_catch_finally_def fetch_catch_block_def fetch_finally_block_def)
next
  case (Inr rs)
  show ?thesis
  proof (cases "responses_decode rs")
    case True
    with Inr show ?thesis
      by (simp add: cycle_succeeds_def usePortfolioData_def fetchPortfolioData_def fetch_try_block_def
          handle_responses_decode try_catch_finally_Normal fetch_finally_block_def initial_state_def)
  next
    case False
    then obtain e s' where "handle_responses rs initial_state = Throw e s'"
      using handle_responses_Normal_iff completion_cases_Throw by metis
    then show ?thesis using Inr False
      by (simp add: cycle_succeeds_def usePortfolioData_def fetchPortfolioData_def fetch_try_block_def
          try_catch_finally_def fetch_catch_block_def fetch_finally_block_def)
  qed
qed

lemma usePortfolioData_loading: "loading (usePortfolioData b) = False"
  by (simp add: usePortfolioData_def fetchPortfolioData_def try_catch_finally_def
      fetch_finally_block_def split: completion.splits)

section \<open>Properties of the fetch cycle\<close>

text \<open>
  C1 (partial acceptance). When all five fetches resolve and every ok response has a
  well-formed body, the hook ends ready: no error, loading cleared, and each holder is
  the decoded body of its response if that response is ok and its initial default
  (absent profile, empty list) if not, independently of the other four.
\<close>

theorem usePortfolioData_partial_acceptance:
  assumes "promise_all b = Inr rs" and "responses_decode rs"
  shows "usePortfolioData b =
    \<lparr>profile = accepted (profileRes rs) None, skills = accepted (skillsRes rs) [],
     projects = accepted (projectsRes rs) [], hobbies = accepted (hobbiesRes rs) [],
     experiences = accepted (experiencesRes rs) [], loading = False, error = None\<rparr>"
  using assms
  by (simp add: usePortfolioData_def fetchPortfolioData_def fetch_try_block_def
        handle_responses_decode try_catch_finally_Normal fetch_finally_block_def)
     (simp add: initial_state_def)

theorem usePortfolioData_partial_acceptance_witness:
  "usePortfolioData server_profile_404 =
     \<lparr>profile = None, skills = [sample_skill], projects = [], hobbies = [], experiences = [],
      loading = False, error = None\<rparr>"
proof -
  let ?rs = "\<lparr>profileRes = Response 404 Malformed_json, skillsRes = Response 200 (Json [sample_skill]),
     projectsRes = Response 200 (Json []), hobbiesRes = Response 200 (Json []),
     experiencesRes = Response 200 (Json [])\<rparr> :: responses"
  have all: "promise_all server_profile_404 = Inr ?rs"
    by (simp add: promise_all_def server_profile_404_def ok_fetch_def)
  have dec: "responses_decode ?rs"
    by (simp add: responses_decode_def decodes_def res_ok_def)
  show ?thesis
    using usePortfolioData_partial_acceptance [OF all dec]
    by (simp add: accepted_def res_ok_def)
qed

text \<open>
  C2 (transport failure). If any one of the five fetches rejects (network failure),
  \<^verbatim>\<open>Promise.all\<close> rejects, the catch block runs, and the hook ends in the error
  state with every holder at its initial default, even for resources whose fetch
  succeeded.
\<close>

theorem usePortfolioData_network_failure:
  assumes "any_fetch_rejects b"
  shows "usePortfolioData b = initial_state\<lparr>loading := False, error := Some failed_msg\<rparr>"
proof -
  from assms have "promise_all b = Inl fetch_type_error"
    by (simp add: promise_all_Inl)
  then show ?thesis
    by (simp add: usePortfolioData_def fetchPortfolioData_def fetch_try_block_def
        try_catch_finally_def fetch_catch_block_def fetch_finally_block_def)
qed

theorem usePortfolioData_network_failure_witness:
  "any_fetch_rejects server_profile_down \<and>
   usePortfolioData server_profile_down =
     \<lparr>profile = None, skills = [], projects = [], hobbies = [], experiences = [],
      loading = False, error = Some failed_msg\<rparr>"
proof -
  have r: "any_fetch_rejects server_profile_down"
    by (simp add: any_fetch_rejects_unfold server_profile_down_def)
  show ?thesis
    using r usePortfolioData_network_failure [OF r] by (simp add: initial_state_def)
qed

text \<open>
  C3 (malformed body). If the profile response is used normally and the skills
  response is ok but its body is not JSON, \<^verbatim>\<open>skillsRes.json()\<close> throws out of the
  try block: the profile already stored is kept, the later holders stay at their
  defaults, and the error is set.
\<close>

theorem usePortfolioData_malformed_keeps_earlier:
  assumes "promise_all b = Inr rs" and "decodes (profileRes rs)"
    and "res_ok (skillsRes rs)" and "res_body (skillsRes rs) = Malformed_json"
  shows "usePortfolioData b =
    initial_state\<lparr>profile := accepted (profileRes rs) None, loading := False,
      error := Some failed_msg\<rparr>"
proof -
  have "handle_responses rs initial_state =
      Throw json_syntax_error (initial_state\<lparr>profile := accepted (profileRes rs) None\<rparr>)"
    unfolding handle_responses_def
    by (simp only: resolve_resource_decodes(1) [OF assms(2)] then_c.simps)
       (simp add: handle_response_malformed assms(3,4) initial_state_def)
  with assms(1) show ?thesis
    by (simp add: usePortfolioData_def fetchPortfolioData_def fetch_try_block_def
        try_catch_finally_def fetch_catch_block_def fetch_finally_block_def)
qed

theorem usePortfolioData_malformed_keeps_earlier_witness:
  "usePortfolioData server_skills_malformed =
     \<lparr>profile = Some sample_profile, skills = [], projects = [], hobbies = [], experiences = [],
      loading = False, error = Some failed_msg\<rparr>"
proof -
  let ?rs = "\<lparr>profileRes = Response 200 (Json (Some sample_profile)), skillsRes = Response 200 Malformed_json,
     projectsRes = Response 200 (Json []), hobbiesRes = Response 200 (Json []),
     experiencesRes = Response 200 (Json [])\<rparr> :: responses"
  have all: "promise_all server_skills_malformed = Inr ?rs"
    by (simp add: promise_all_def server_skills_malformed_def ok_fetch_def)
  show ?thesis
    using usePortfolioData_malformed_keeps_earlier [OF all]
    by (simp add: decodes_def res_ok_def accepted_def initial_state_def)
qed

text \<open>
  C4 (outcome). Whatever the network does, the cycle ends with loading cleared, and the
  error is set exactly when the cycle does not succeed (a fetch rejected, or an ok
  response had a malformed body), always to the one fixed message.
\<close>

theorem usePortfolioData_outcome:
  "loading (usePortfolioData b) = False \<and>
   error (usePortfolioData b) = (if cycle_succeeds b then None else Some failed_msg)"
  by (simp add: usePortfolioData_loading usePortfolioData_error)

text \<open>
  C5 (no unhandled rejection). The async function \<^verbatim>\<open>fetchPortfolioData\<close> always
  completes normally: its catch block absorbs every error of the try block, so the
  promise the effect drops is never rejected.
\<close>

theorem fetchPortfolioData_Normal:
  "fetchPortfolioData b s = Normal (state_of (fetchPortfolioData b s))"
  by (simp add: fetchPortfolioData_def try_catch_finally_def fetch_catch_block_def
      split: completion.splits)

end
