(* ===== verification/Hook_Steps.thy ===== *)
theory Hook_Steps
  imports Hook
begin

text \<open>
  The small-step semantics of the hook's effect (\<^verbatim>\<open>useEffect\<close> and the async
  \<^verbatim>\<open>fetchPortfolioData\<close> of \<^verbatim>\<open>src/frontend/src/hooks/usePortfolioData.ts\<close>).
  A configuration is a program point \<open>hook_pc\<close> and the seven holders. The points
  are: the mounted component before the effect runs (\<open>Mounted\<close>), the entry of the
  try block, the joint wait of \<^verbatim>\<open>Promise.all\<close> with the fetches still pending
  (\<open>Awaiting ks\<close>, \<open>ks\<close> the array positions not yet settled), the guarded block
  of resource \<open>k\<close> (\<open>Resolving k rs\<close>, each with its \<^verbatim>\<open>await res.json()\<close>),
  the catch block, the finally block, and the settled hook. A pending fetch may settle
  at any time and in any order; a rejecting one makes \<^verbatim>\<open>Promise.all\<close> reject at
  once. The theorems: every run that settles ends in the state of the big-step model
  (refinement, independent of the settlement order); every run from mount has at most
  16 steps, and a settled run exists within that bound; no run gets stuck before
  settling; loading is true exactly until the hook settles and the error appears only
  in the finally block or after; no holder is written before \<^verbatim>\<open>Promise.all\<close>
  resolves.
\<close>

datatype hook_pc =
    Mounted
  | Try_entered
  | Awaiting "nat list"
  | Resolving nat responses
  | Catching js_error
  | Finalizing
  | Settled

type_synonym hook_config = "hook_pc \<times> portfolio_state"

inductive cycle_step :: "server \<Rightarrow> hook_config \<Rightarrow> hook_config \<Rightarrow> bool" for b :: server where
  effect_fires: "cycle_step b (Mounted, s) (Try_entered, s)"
| try_start: "cycle_step b (Try_entered, s) (Awaiting [0..<5], s\<lparr>loading := True, error := None\<rparr>)"
| settle_fulfilled: "k \<in> set ks \<Longrightarrow> \<not> fetch_rejects b k \<Longrightarrow>
    cycle_step b (Awaiting ks, s) (Awaiting (remove1 k ks), s)"
| settle_rejected: "k \<in> set ks \<Longrightarrow> fetch_rejects b k \<Longrightarrow>
    cycle_step b (Awaiting ks, s) (Catching fetch_type_error, s)"
| all_settled: "promise_all b = Inr rs \<Longrightarrow> cycle_step b (Awaiting [], s) (Resolving 0 rs, s)"
| resolve_normal: "k < 5 \<Longrightarrow> resolve_resource k rs s = Normal s' \<Longrightarrow>
    cycle_step b (Resolving k rs, s) (Resolving (Suc k) rs, s')"
| resolve_throw: "k < 5 \<Longrightarrow> resolve_resource k rs s = Throw e s' \<Longrightarrow>
    cycle_step b (Resolving k rs, s) (Catching e, s')"
| resolved_all: "cycle_step b (Resolving 5 rs, s) (Finalizing, s)"
| catch_runs: "cycle_step b (Catching e, s) (Finalizing, state_of (fetch_catch_block e s))"
| finally_runs: "cycle_step b (Finalizing, s) (Settled, fetch_finally_block s)"

definition start_config :: hook_config where
  "start_config = (Mounted, initial_state)"

abbreviation cycle_steps :: "server \<Rightarrow> hook_config \<Rightarrow> hook_config \<Rightarrow> bool" where
  "cycle_steps b \<equiv> (cycle_step b)\<^sup>*\<^sup>*"

text \<open>The remaining per-resource blocks from block \<open>k\<close> on.\<close>

function handle_from :: "nat \<Rightarrow> responses \<Rightarrow> portfolio_state \<Rightarrow> portfolio_state completion" where
  "handle_from k rs s = (if k < 5 then then_c (resolve_resource k rs s) (handle_from (Suc k) rs) else Normal s)"
  by pat_completeness auto
termination
  by (relation "measure (\<lambda>(k, rs, s). 5 - k)") auto

declare handle_from.simps [simp del]

definition catch_completion :: "portfolio_state completion \<Rightarrow> portfolio_state" where
  "catch_completion c = (case c of Normal s \<Rightarrow> s | Throw e s \<Rightarrow> state_of (fetch_catch_block e s))"

text \<open>The final state the rest of the run computes from a configuration.\<close>

fun remaining :: "server \<Rightarrow> hook_config \<Rightarrow> portfolio_state" where
  "remaining b (Mounted, s) = state_of (fetchPortfolioData b s)"
| "remaining b (Try_entered, s) = state_of (fetchPortfolioData b s)"
| "remaining b (Awaiting ks, s) = fetch_finally_block (catch_completion
     (case promise_all b of Inl e \<Rightarrow> Throw e s | Inr rs \<Rightarrow> handle_from 0 rs s))"
| "remaining b (Resolving k rs, s) = fetch_finally_block (catch_completion (handle_from k rs s))"
| "remaining b (Catching e, s) = fetch_finally_block (state_of (fetch_catch_block e s))"
| "remaining b (Finalizing, s) = fetch_finally_block s"
| "remaining b (Settled, s) = s"

fun rank :: "hook_config \<Rightarrow> nat" where
  "rank (Mounted, s) = 16"
| "rank (Try_entered, s) = 15"
| "rank (Awaiting ks, s) = 9 + length ks"
| "rank (Resolving k rs, s) = 8 - k"
| "rank (Catching e, s) = 2"
| "rank (Finalizing, s) = 1"
| "rank (Settled, s) = 0"

fun well_config :: "server \<Rightarrow> hook_config \<Rightarrow> bool" where
  "well_config b (Awaiting ks, s) = (\<forall>k<5. k \<notin> set ks \<longrightarrow> \<not> fetch_rejects b k)"
| "well_config b (Resolving k rs, s) = (k \<le> 5)"
| "well_config b c = True"

fun before_join :: "hook_pc \<Rightarrow> bool" where
  "before_join Mounted = True"
| "before_join Try_entered = True"
| "before_join (Awaiting ks) = True"
| "before_join p = False"

definition cycle_inv :: "hook_config \<Rightarrow> bool" where
  "cycle_inv c \<longleftrightarrow>
     (loading (snd c) \<longleftrightarrow> fst c \<noteq> Settled) \<and>
     (error (snd c) = None \<or> error (snd c) = Some failed_msg \<and> (fst c = Finalizing \<or> fst c = Settled)) \<and>
     (before_join (fst c) \<longrightarrow> portfolio_data_of (snd c) = portfolio_data_of initial_state)"

lemma handle_from_done: "5 \<le> k \<Longrightarrow> handle_from k rs = Normal"
  by (rule ext) (simp add: handle_from.simps)

lemma handle_from_step:
  "k < 5 \<Longrightarrow> handle_from k rs = (\<lambda>s. then_c (resolve_resource k rs s) (handle_from (Suc k) rs))"
  by (rule ext) (simp add: handle_from.simps [of k])

lemma handle_responses_from: "handle_responses rs s = handle_from 0 rs s"
  by (simp add: handle_responses_def handle_from_step handle_from_done eval_nat_numeral)

lemma fetchPortfolioData_state:
  "state_of (fetchPortfolioData b s) = fetch_finally_block (catch_completion
     (case promise_all b of Inl e \<Rightarrow> Throw e (s\<lparr>loading := True, error := None\<rparr>)
      | Inr rs \<Rightarrow> handle_from 0 rs (s\<lparr>loading := True, error := None\<rparr>)))"
  by (simp add: fetchPortfolioData_def try_catch_finally_def fetch_try_block_def catch_completion_def
      handle_responses_from fetch_catch_block_def split: completion.splits sum.splits)

lemma fetch_rejects_less: "fetch_rejects b k \<Longrightarrow> k < 5"
  by (induction b k rule: fetch_rejects.induct) simp_all

lemma fetch_rejects_promise_all: "fetch_rejects b k \<Longrightarrow> promise_all b = Inl fetch_type_error"
  by (auto simp: promise_all_Inl any_fetch_rejects_def dest: fetch_rejects_less)

lemma cycle_step_remaining: "cycle_step b c c' \<Longrightarrow> remaining b c' = remaining b c"
proof (induction rule: cycle_step.induct)
  case (try_start s)
  then show ?case by (simp add: fetchPortfolioData_state)
next
  case (settle_rejected k ks s)
  then show ?case by (simp add: fetch_rejects_promise_all catch_completion_def)
next
  case (resolve_normal k rs s s')
  then show ?case by (simp add: handle_from.simps [of k])
next
  case (resolve_throw k rs s e s')
  then show ?case by (simp add: handle_from.simps [of k] catch_completion_def)
next
  case (resolved_all rs s)
  then show ?case by (simp add: handle_from.simps catch_completion_def)
qed simp_all

lemma cycle_steps_remaining: "cycle_steps b c c' \<Longrightarrow> remaining b c' = remaining b c"
  by (induction rule: rtranclp_induct) (simp_all add: cycle_step_remaining)

lemma cycle_step_rank: "cycle_step b c c' \<Longrightarrow> rank c' < rank c"
  by (induction rule: cycle_step.induct) (auto simp: length_remove1 dest: length_pos_if_in_set)

lemma cycle_relpow_rank: "(cycle_step b ^^ n) c c' \<Longrightarrow> n \<le> rank c"
proof (induction n arbitrary: c)
  case 0
  then show ?case by simp
next
  case (Suc n)
  from relpowp_Suc_D2 [OF Suc.prems] obtain c1
    where "cycle_step b c c1" and "(cycle_step b ^^ n) c1 c'"
    by blast
  then show ?case using Suc.IH cycle_step_rank by fastforce
qed

lemma handle_response_frame:
  "(\<And>d t. loading (f d t) = loading t \<and> error (f d t) = error t) \<Longrightarrow>
   loading (state_of (handle_response r f s)) = loading s \<and>
   error (state_of (handle_response r f s)) = error s"
  by (cases r) (auto simp: handle_response_def split: json_body.splits)

lemma resolve_resource_frame:
  "loading (state_of (resolve_resource k rs s)) = loading s \<and> error (state_of (resolve_resource k rs s)) = error s"
  by (induction k rs rule: resolve_resource.induct) (simp_all add: handle_response_frame)

lemma cycle_step_inv: "cycle_step b c c' \<Longrightarrow> cycle_inv c \<Longrightarrow> cycle_inv c'"
proof (induction rule: cycle_step.induct)
  case (resolve_normal k rs s s')
  then show ?case
    using resolve_resource_frame [of k rs s] by (simp add: cycle_inv_def)
next
  case (resolve_throw k rs s e s')
  then show ?case
    using resolve_resource_frame [of k rs s] by (simp add: cycle_inv_def)
qed (simp_all add: cycle_inv_def fetch_catch_block_def fetch_finally_block_def portfolio_data_of_def)

lemma cycle_steps_inv: "cycle_steps b c c' \<Longrightarrow> cycle_inv c \<Longrightarrow> cycle_inv c'"
  by (induction rule: rtranclp_induct) (auto intro: cycle_step_inv)

lemma cycle_inv_start: "cycle_inv start_config"
  by (simp add: cycle_inv_def start_config_def initial_state_def)

lemma cycle_step_well: "cycle_step b c c' \<Longrightarrow> well_config b c \<Longrightarrow> well_config b c'"
  by (induction rule: cycle_step.induct) (auto, metis in_set_remove1)

lemma cycle_steps_well: "cycle_steps b c c' \<Longrightarrow> well_config b c \<Longrightarrow> well_config b c'"
  by (induction rule: rtranclp_induct) (auto intro: cycle_step_well)

lemma cycle_progress:
  assumes "well_config b c" and "fst c \<noteq> Settled"
  shows "\<exists>c'. cycle_step b c c'"
proof (cases c)
  case (Pair p s)
  show ?thesis
  proof (cases p)
    case (Awaiting ks)
    show ?thesis
    proof (cases ks)
      case Nil
      with assms Pair Awaiting have "\<not> any_fetch_rejects b"
        by (simp add: any_fetch_rejects_def)
      then obtain rs where "promise_all b = Inr rs"
        using promise_all_Inr_ex by blast
      with Pair Awaiting Nil show ?thesis by (blast intro: cycle_step.all_settled)
    next
      case (Cons k ks')
      then have k: "k \<in> set ks" by simp
      show ?thesis
      proof (cases "fetch_rejects b k")
        case True
        with k have "cycle_step b (Awaiting ks, s) (Catching fetch_type_error, s)"
          by (rule cycle_step.settle_rejected)
        with Pair Awaiting show ?thesis by blast
      next
        case False
        with k have "cycle_step b (Awaiting ks, s) (Awaiting (remove1 k ks), s)"
          by (rule cycle_step.settle_fulfilled)
        with Pair Awaiting show ?thesis by blast
      qed
    qed
  next
    case (Resolving k rs)
    show ?thesis
    proof (cases "k < 5")
      case True
      with Pair Resolving show ?thesis
        by (cases "resolve_resource k rs s") (auto intro: cycle_step.resolve_normal cycle_step.resolve_throw)
    next
      case False
      with assms Pair Resolving have "k = 5" by simp
      with Pair Resolving show ?thesis by (blast intro: cycle_step.resolved_all)
    qed
  qed (use assms Pair in \<open>auto intro: cycle_step.intros\<close>)
qed

lemma cycle_settles_from: "well_config b c \<Longrightarrow> \<exists>s. cycle_steps b c (Settled, s)"
proof (induction "rank c" arbitrary: c rule: less_induct)
  case less
  show ?case
  proof (cases "fst c = Settled")
    case True
    then show ?thesis by (metis prod.collapse rtranclp.rtrancl_refl)
  next
    case False
    with less.prems obtain c' where step: "cycle_step b c c'"
      using cycle_progress by blast
    then have "rank c' < rank c" and "well_config b c'"
      using cycle_step_rank cycle_step_well less.prems by blast+
    then obtain s where "cycle_steps b c' (Settled, s)"
      using less.hyps by blast
    with step show ?thesis by (blast intro: converse_rtranclp_into_rtranclp)
  qed
qed

lemma cycle_settled_run: "cycle_steps b start_config (Settled, usePortfolioData b)"
proof -
  obtain s where run: "cycle_steps b start_config (Settled, s)"
    using cycle_settles_from [of b start_config] by (auto simp: start_config_def)
  then have "s = usePortfolioData b"
    using cycle_steps_remaining [OF run] by (simp add: start_config_def usePortfolioData_def)
  with run show ?thesis by simp
qed

inductive_cases settled_stepE: "cycle_step b (Settled, s) c'"

lemma usePortfolioData_profile_404:
  "usePortfolioData server_profile_404 =
     \<lparr>profile = None, skills = [sample_skill], projects = [], hobbies = [], experiences = [],
      loading = False, error = None\<rparr>"
  by (simp add: usePortfolioData_def fetchPortfolioData_def try_catch_finally_def fetch_try_block_def
      promise_all_def server_profile_404_def ok_fetch_def handle_responses_def handle_response_def
      eval_nat_numeral fetch_finally_block_def initial_state_def)

text \<open>
  C6 (refinement). Every run of the small-step semantics from mount that reaches the settled
  point ends in exactly the state of the big-step model \<open>usePortfolioData\<close>,
  whatever order the five fetches settle in.
\<close>

theorem cycle_refines_usePortfolioData:
  "cycle_steps b start_config (Settled, s) \<Longrightarrow> s = usePortfolioData b"
  using cycle_steps_remaining [of b start_config "(Settled, s)"]
  by (simp add: start_config_def usePortfolioData_def)

theorem cycle_refines_usePortfolioData_witness:
  "\<exists>s. cycle_steps server_profile_404 start_config (Settled, s) \<and>
     s = \<lparr>profile = None, skills = [sample_skill], projects = [], hobbies = [], experiences = [],
      loading = False, error = None\<rparr>"
proof -
  obtain s where run: "cycle_steps server_profile_404 start_config (Settled, s)"
    using cycle_settles_from [of server_profile_404 start_config] by (auto simp: start_config_def)
  with cycle_refines_usePortfolioData [OF run] show ?thesis
    by (auto simp: usePortfolioData_profile_404)
qed

text \<open>
  C7 (termination). Every run from mount has at most 16 steps: the fetch cycle cannot
  run forever, whatever the order of settlement.
\<close>

theorem cycle_run_bounded: "(cycle_step b ^^ n) start_config c \<Longrightarrow> n \<le> 16"
proof -
  assume "(cycle_step b ^^ n) start_config c"
  from cycle_relpow_rank [OF this] show ?thesis by (simp add: start_config_def)
qed

theorem cycle_run_bounded_witness:
  "\<exists>n. (cycle_step server_profile_404 ^^ n) start_config (Settled, usePortfolioData server_profile_404) \<and> n \<le> 16"
proof -
  obtain n where run: "(cycle_step server_profile_404 ^^ n) start_config (Settled, usePortfolioData server_profile_404)"
    using cycle_settled_run rtranclp_imp_relpowp by metis
  with cycle_run_bounded [OF run] show ?thesis by blast
qed

text \<open>
  C8 (liveness). From mount the hook always reaches the settled point, within 16 steps,
  in the state of the big-step model.
\<close>

theorem cycle_settles_within_bound:
  "\<exists>n\<le>16. (cycle_step b ^^ n) start_config (Settled, usePortfolioData b)"
proof -
  obtain n where run: "(cycle_step b ^^ n) start_config (Settled, usePortfolioData b)"
    using cycle_settled_run rtranclp_imp_relpowp by metis
  moreover have "n \<le> 16"
    using cycle_relpow_rank [OF run] by (simp add: start_config_def)
  ultimately show ?thesis by blast
qed

text \<open>
  C9 (no deadlock). A configuration reachable from mount from which no step is possible
  is the settled hook holding the big-step result.
\<close>

theorem cycle_never_stuck:
  assumes "cycle_steps b start_config c" and "\<nexists>c'. cycle_step b c c'"
  shows "c = (Settled, usePortfolioData b)"
proof -
  have "well_config b c"
    using cycle_steps_well [OF assms(1)] by (simp add: start_config_def)
  with assms(2) have "fst c = Settled"
    using cycle_progress by blast
  then obtain s where c: "c = (Settled, s)" by (cases c) simp
  have "remaining b c = remaining b start_config"
    using cycle_steps_remaining [OF assms(1)] .
  with c show ?thesis by (simp add: start_config_def usePortfolioData_def)
qed

theorem cycle_never_stuck_witness:
  "\<exists>c. cycle_steps server_profile_404 start_config c \<and> (\<nexists>c'. cycle_step server_profile_404 c c') \<and>
     c = (Settled, \<lparr>profile = None, skills = [sample_skill], projects = [], hobbies = [],
       experiences = [], loading = False, error = None\<rparr>)"
proof -
  obtain s where run: "cycle_steps server_profile_404 start_config (Settled, s)"
    using cycle_settles_from [of server_profile_404 start_config] by (auto simp: start_config_def)
  have stuck: "\<nexists>c'. cycle_step server_profile_404 (Settled, s) c'"
    using settled_stepE by blast
  from cycle_never_stuck [OF run stuck] have "s = usePortfolioData server_profile_404" by simp
  with run stuck show ?thesis by (auto simp: usePortfolioData_profile_404)
qed

text \<open>
  C10 (loading flag). In every configuration reachable from mount, loading is true
  exactly when the hook has not settled, and an error, when present, is the fixed
  message and appears only once the finally block is reached or the hook settled.
\<close>

theorem cycle_loading_discipline:
  assumes "cycle_steps b start_config (p, s)"
  shows "(loading s \<longleftrightarrow> p \<noteq> Settled) \<and>
         (error s \<noteq> None \<longrightarrow> error s = Some failed_msg \<and> (p = Finalizing \<or> p = Settled))"
  using cycle_steps_inv [OF assms cycle_inv_start] by (auto simp: cycle_inv_def)

theorem cycle_loading_discipline_witness:
  "\<not> loading (usePortfolioData server_profile_404) \<and> error (usePortfolioData server_profile_404) = None"
  using cycle_loading_discipline [OF cycle_settled_run [of server_profile_404]]
  by (simp add: usePortfolioData_profile_404)

text \<open>
  C11 (join before write). Before \<^verbatim>\<open>Promise.all\<close> resolves (at mount, at the
  entry of the try block, and while fetches are pending) no data holder has been
  written: the data part of the state is the initial one.
\<close>

theorem cycle_no_write_before_join:
  assumes "cycle_steps b start_config (p, s)" and "before_join p"
  shows "portfolio_data_of s = portfolio_data_of initial_state"
  using cycle_steps_inv [OF assms(1) cycle_inv_start] assms(2) by (simp add: cycle_inv_def)

theorem cycle_no_write_before_join_witness:
  "cycle_steps server_profile_404 start_config (Awaiting (remove1 1 [0..<5]), initial_state) \<and>
   portfolio_data_of initial_state = \<lparr>pd_profile = None, pd_skills = [], pd_projects = [],
     pd_hobbies = [], pd_experiences = []\<rparr>"
proof -
  have "cycle_step server_profile_404 start_config (Try_entered, initial_state)"
    unfolding start_config_def by (rule cycle_step.effect_fires)
  moreover have "cycle_step server_profile_404 (Try_entered, initial_state) (Awaiting [0..<5], initial_state)"
    using cycle_step.try_start [of server_profile_404 initial_state] by simp
  moreover have "cycle_step server_profile_404 (Awaiting [0..<5], initial_state)
      (Awaiting (remove1 1 [0..<5]), initial_state)"
    by (rule cycle_step.settle_fulfilled)
       (simp_all add: server_profile_404_def ok_fetch_def)
  ultimately have run: "cycle_steps server_profile_404 start_config (Awaiting (remove1 1 [0..<5]), initial_state)"
    by (meson converse_rtranclp_into_rtranclp rtranclp.rtrancl_refl)
  have "before_join (Awaiting (remove1 1 [0..<5]))" by simp
  with run cycle_no_write_before_join show ?thesis
    by (simp add: portfolio_data_of_def initial_state_def)
qed

end
