(* ===== verification/Js_String.thy ===== *)
theory Js_String
  imports Prelude
begin

text \<open>
  The JavaScript built-ins on strings and arrays that the components call, modelled
  from the ECMAScript specification on \<open>string\<close> (a list of 8-bit characters; the
  sources only apply them to text where this agrees with UTF-16 code units, which the
  lemmas' statements make explicit where it matters):
  \<^item> \<open>js_split c s\<close> is \<^verbatim>\<open>s.split(c)\<close> for a one-character separator: always at
    least one piece, empty pieces kept;
  \<^item> \<open>js_trim\<close> is \<^verbatim>\<open>s.trim()\<close> for the ASCII white space and line terminators
    (tab, line feed, vertical tab, form feed, carriage return, space);
  \<^item> \<open>js_substring s a b\<close> is \<^verbatim>\<open>s.substring(a, b)\<close>: both bounds clamped to
    \<open>[0, length]\<close> and swapped when reversed;
  \<^item> \<open>js_char_at s i\<close> is \<^verbatim>\<open>s.charAt(i)\<close>: the one-character string, or
    \<open>''''\<close> out of range;
  \<^item> \<open>js_to_upper\<close> is \<^verbatim>\<open>toUpperCase()\<close> on ASCII letters (other characters
    are left as they are);
  \<^item> \<open>js_array_from_set xs\<close> is \<^verbatim>\<open>Array.from(new Set(xs))\<close>: the distinct
    elements in order of first insertion.
\<close>

fun js_split :: "char \<Rightarrow> string \<Rightarrow> string list" where
  "js_split c [] = [[]]"
| "js_split c (x # xs) =
     (if x = c then [] # js_split c xs
      else (case js_split c xs of w # ws \<Rightarrow> (x # w) # ws | [] \<Rightarrow> [[x]]))"

fun js_join :: "char \<Rightarrow> string list \<Rightarrow> string" where
  "js_join c [] = []"
| "js_join c [w] = w"
| "js_join c (w # v # ws) = w @ c # js_join c (v # ws)"

definition js_is_space :: "char \<Rightarrow> bool" where
  "js_is_space x \<longleftrightarrow> of_char x \<in> {9, 10, 11, 12, 13, 32 :: nat}"

definition js_trim :: "string \<Rightarrow> string" where
  "js_trim s = rev (dropWhile js_is_space (rev (dropWhile js_is_space s)))"

definition js_clamp :: "int \<Rightarrow> string \<Rightarrow> nat" where
  "js_clamp i s = min (nat i) (length s)"

definition js_substring :: "string \<Rightarrow> int \<Rightarrow> int \<Rightarrow> string" where
  "js_substring s a b =
     (let i = js_clamp a s; j = js_clamp b s in take (max i j - min i j) (drop (min i j) s))"

definition js_char_at :: "string \<Rightarrow> nat \<Rightarrow> string" where
  "js_char_at s i = (if i < length s then [s ! i] else [])"

definition js_upper_char :: "char \<Rightarrow> char" where
  "js_upper_char x =
     (let n = (of_char x :: nat) in if 97 \<le> n \<and> n \<le> 122 then char_of (n - 32) else x)"

definition js_to_upper :: "string \<Rightarrow> string" where
  "js_to_upper s = map js_upper_char s"

definition js_array_from_set :: "'a list \<Rightarrow> 'a list" where
  "js_array_from_set xs = fold (\<lambda>x acc. if x \<in> set acc then acc else acc @ [x]) xs []"

text \<open>String conversion of a non-negative integer (template literal \<^verbatim>\<open>${n}\<close>).\<close>

fun js_nat_to_string :: "nat \<Rightarrow> string" where
  "js_nat_to_string n =
     (if n < 10 then [char_of (48 + n)] else js_nat_to_string (n div 10) @ [char_of (48 + n mod 10)])"

section \<open>split\<close>

lemma js_split_not_Nil [simp]: "js_split c s \<noteq> []"
  by (induction s) (auto split: list.splits)

lemma js_split_Cons_other:
  "x \<noteq> c \<Longrightarrow> js_split c (x # xs) = (x # hd (js_split c xs)) # tl (js_split c xs)"
  by (cases "js_split c xs") simp_all

lemma js_split_length: "length (js_split c s) = count_list s c + 1"
  by (induction s) (auto split: list.splits)

lemma js_split_pieces: "w \<in> set (js_split c s) \<Longrightarrow> c \<notin> set w"
proof (induction s arbitrary: w)
  case Nil
  then show ?case by simp
next
  case (Cons x xs)
  then show ?case
    by (cases "x = c") (auto split: list.splits)
qed

lemma js_join_split: "js_join c (js_split c s) = s"
proof (induction s)
  case Nil
  then show ?case by simp
next
  case (Cons x xs)
  obtain w ws where split: "js_split c xs = w # ws"
    using js_split_not_Nil by (metis list.exhaust)
  show ?case
  proof (cases "x = c")
    case True
    with Cons split show ?thesis by simp
  next
    case False
    with Cons split show ?thesis by (cases ws) simp_all
  qed
qed

section \<open>trim\<close>

lemma set_js_trim: "set (js_trim s) \<subseteq> set s"
proof
  fix x
  assume "x \<in> set (js_trim s)"
  then have "x \<in> set (dropWhile js_is_space (rev (dropWhile js_is_space s)))"
    by (simp add: js_trim_def)
  then have "x \<in> set (dropWhile js_is_space s)"
    using set_dropWhileD by fastforce
  then show "x \<in> set s"
    using set_dropWhileD by fastforce
qed

lemma js_trim_edges:
  assumes "js_trim s \<noteq> []"
  shows "\<not> js_is_space (hd (js_trim s)) \<and> \<not> js_is_space (last (js_trim s))"
proof -
  let ?t = "dropWhile js_is_space s"
  let ?u = "dropWhile js_is_space (rev ?t)"
  have u: "?u \<noteq> []" using assms by (simp add: js_trim_def)
  then have t: "?t \<noteq> []" by (cases ?t) simp_all
  have "\<not> js_is_space (hd ?u)"
    using u hd_dropWhile by blast
  moreover have "last ?u = hd ?t"
    using u t by (simp add: last_dropWhile_nonempty last_rev)
  moreover have "\<not> js_is_space (hd ?t)"
    using t hd_dropWhile by blast
  ultimately show ?thesis
    by (simp add: js_trim_def hd_rev last_rev)
qed

section \<open>Array.from(new Set(xs))\<close>

lemma js_array_from_set_snoc:
  "js_array_from_set (xs @ [x]) =
     (if x \<in> set (js_array_from_set xs) then js_array_from_set xs else js_array_from_set xs @ [x])"
  by (simp add: js_array_from_set_def)

lemma js_array_from_set_first_occurrence: "js_array_from_set xs = rev (remdups (rev xs))"
proof (induction xs rule: rev_induct)
  case Nil
  then show ?case by (simp add: js_array_from_set_def)
next
  case (snoc x xs)
  then show ?case by (simp add: js_array_from_set_snoc)
qed

lemma js_array_from_set_distinct: "distinct (js_array_from_set xs)"
  by (simp add: js_array_from_set_first_occurrence)

lemma set_js_array_from_set [simp]: "set (js_array_from_set xs) = set xs"
  by (simp add: js_array_from_set_first_occurrence)

end
