(* ===== verification/Helpers.thy ===== *)
theory Helpers
  imports Js_String
begin

text \<open>
  \<^verbatim>\<open>src/frontend/src/utils/helpers.ts\<close>. Date formatting and URL parsing are done
  by the browser (\<^verbatim>\<open>new Date(s).toLocaleDateString('en-US', ...)\<close>,
  \<^verbatim>\<open>new URL(s)\<close>); they are parameters of the model, each returning the error it
  may throw, so that the \<^verbatim>\<open>try\<close>/\<^verbatim>\<open>catch\<close> of the helpers is modelled as
  written. JavaScript numbers are \<open>real\<close> (proficiency) and \<open>int\<close> (lengths).
\<close>

type_synonym date_formatter = "string \<Rightarrow> js_error + string"
type_synonym url_parser = "string \<Rightarrow> js_error + unit"

definition formatDate :: "date_formatter \<Rightarrow> string option \<Rightarrow> string" where
  "formatDate fmt dateString =
     (if \<not> js_truthy_str dateString then ''Present''
      else (case fmt (the dateString) of Inr r \<Rightarrow> r | Inl e \<Rightarrow> the dateString))"

definition getProficiencyColor :: "real \<Rightarrow> string" where
  "getProficiencyColor proficiency =
     (if proficiency \<ge> 80 then ''bg-green-500''
      else if proficiency \<ge> 60 then ''bg-blue-500''
      else ''bg-yellow-500'')"

definition truncateText :: "string \<Rightarrow> int \<Rightarrow> string" where
  "truncateText text maxLength =
     (if int (length text) \<le> maxLength then text
      else js_substring text 0 maxLength @ ''...'')"

definition isValidUrl :: "url_parser \<Rightarrow> string option \<Rightarrow> bool" where
  "isValidUrl parse url =
     (if \<not> js_truthy_str url then False
      else (case parse (the url) of Inr u \<Rightarrow> True | Inl e \<Rightarrow> False))"

definition getInitials :: "string \<Rightarrow> string" where
  "getInitials fullName =
     js_substring (js_to_upper (concat (map (\<lambda>name. js_char_at name 0) (js_split CHR '' '' fullName)))) 0 2"

text \<open>Reference: the upper-cased first letters of the first two words (maximal runs of non-space characters).\<close>

definition name_words :: "string \<Rightarrow> string list" where
  "name_words s = filter (\<lambda>w. w \<noteq> []) (js_split CHR '' '' s)"

lemma js_substring_0 [simp]: "0 \<le> n \<Longrightarrow> js_substring s 0 n = take (nat n) s"
  by (auto simp: js_substring_def js_clamp_def min_def max_def)

lemma concat_char_at_0: "concat (map (\<lambda>w. js_char_at w 0) ws) = map hd (filter (\<lambda>w. w \<noteq> []) ws)"
  by (induction ws) (auto simp: js_char_at_def hd_conv_nth)

text \<open>
  C18 (initials). \<^verbatim>\<open>getInitials\<close> is the reference "upper-cased first letters of the
  first two words": empty pieces of \<^verbatim>\<open>split(' ')\<close> (from repeated spaces)
  contribute nothing, and the result has at most two characters.
\<close>

theorem getInitials_reference:
  "getInitials n = take 2 (map (js_upper_char \<circ> hd) (name_words n)) \<and> length (getInitials n) \<le> 2"
  by (simp add: getInitials_def name_words_def concat_char_at_0 js_to_upper_def take_map)

text \<open>
  C19 (truncation). A text longer than \<open>maxLength\<close> becomes its first
  \<open>maxLength\<close> characters (none for a negative bound) followed by \<^verbatim>\<open>...\<close>, so the
  result is three characters longer than the bound.
\<close>

theorem truncateText_long:
  assumes "\<not> int (length t) \<le> m"
  shows "truncateText t m = take (nat m) t @ ''...'' \<and> length (truncateText t m) = nat m + 3"
  using assms by (auto simp: truncateText_def js_substring_def js_clamp_def)

theorem truncateText_long_witness:
  "truncateText ''Hello world'' 5 = ''Hello...'' \<and> length (truncateText ''Hello world'' 5) = 8"
  using truncateText_long [of "''Hello world''" 5] by simp

text \<open>
  C20 (date helper errors). \<^verbatim>\<open>formatDate\<close> never throws: a missing or empty date
  gives \<^verbatim>\<open>Present\<close>, and a date the browser's formatter rejects is returned as it
  was given.
\<close>

theorem formatDate_total:
  assumes "fmt s = Inl e" and "s \<noteq> []"
  shows "formatDate fmt (Some s) = s \<and> formatDate fmt None = ''Present'' \<and>
         formatDate fmt (Some []) = ''Present''"
  using assms by (simp add: formatDate_def)

theorem formatDate_total_witness:
  "formatDate (\<lambda>_. Inl (RangeError ''Invalid time value'')) (Some ''someday'') = ''someday''"
  using formatDate_total [of "\<lambda>_. Inl (RangeError ''Invalid time value'')" "''someday''"] by simp


end
