(* ===== verification/Skills.thy ===== *)
theory Skills
  imports Helpers Types
begin

text \<open>
  \<^verbatim>\<open>src/frontend/src/components/sections/Skills.tsx\<close>. The section lists the
  categories in order of first appearance (\<^verbatim>\<open>Array.from(new Set(...))\<close>) and,
  under each, the skills of that category in their original order, each as a card
  with its optional icon, its name, its percentage, a bar coloured by
  \<^verbatim>\<open>getSkillColor\<close> and its optional description. The rendered tree is modelled
  as the list of category groups of cards.
\<close>

definition Skills_section_id :: string where "Skills_section_id = ''skills''"

definition skill_categories :: "skill list \<Rightarrow> string list" where
  "skill_categories skills = js_array_from_set (map skill_category skills)"

definition getSkillColor :: "real \<Rightarrow> string" where
  "getSkillColor proficiency =
     (if proficiency \<ge> 80 then ''bg-green-500''
      else if proficiency \<ge> 60 then ''bg-blue-500''
      else ''bg-yellow-500'')"

definition category_skills :: "skill list \<Rightarrow> string \<Rightarrow> skill list" where
  "category_skills skills category = filter (\<lambda>skill. skill_category skill = category) skills"

datatype skill_card = Skill_card
  (card_key: int) (card_icon: "string option") (card_name: string) (card_percent: real)
  (card_bar: string) (card_description: "string option")

definition skill_card_of :: "skill \<Rightarrow> skill_card" where
  "skill_card_of skill =
     Skill_card (skill_id skill)
       (if js_truthy_str (skill_iconUrl skill) then skill_iconUrl skill else None)
       (skill_name skill) (skill_proficiency skill) (getSkillColor (skill_proficiency skill))
       (if js_truthy_str (skill_description skill) then skill_description skill else None)"

definition Skills_view :: "skill list \<Rightarrow> (string \<times> skill_card list) list" where
  "Skills_view skills =
     map (\<lambda>category. (category, map skill_card_of (category_skills skills category)))
       (skill_categories skills)"

definition demo_skill :: skill where
  "demo_skill =
     \<lparr>skill_id = 1, skill_name = ''Isabelle'', skill_category = ''Proof'', skill_iconUrl = None,
      skill_proficiency = 90, skill_description = None\<rparr>"

text \<open>
  C12 (grouping). Grouping the skills by category loses and duplicates nothing: the
  cards of all groups, concatenated, are a permutation of the cards of the skills, so
  every skill is shown exactly once.
\<close>

lemma category_groups_permutation:
  "mset (concat (map (category_skills skills) (skill_categories skills))) = mset skills"
proof -
  have "set (map skill_category skills) \<subseteq> set (skill_categories skills)"
    and "distinct (skill_categories skills)"
    by (simp_all add: skill_categories_def js_array_from_set_distinct)
  then show ?thesis
    unfolding category_skills_def by (rule mset_concat_map_filter)
qed

theorem Skills_view_permutation:
  "mset (concat (map snd (Skills_view skills))) = mset (map skill_card_of skills)"
proof -
  have "concat (map snd (Skills_view skills)) =
        map skill_card_of (concat (map (category_skills skills) (skill_categories skills)))"
    by (simp add: Skills_view_def map_concat comp_def)
  then show ?thesis
    by (simp only: mset_map category_groups_permutation)
qed

text \<open>
  C13 (colour). The section's own \<^verbatim>\<open>getSkillColor\<close> is the helper
  \<^verbatim>\<open>getProficiencyColor\<close> of \<^verbatim>\<open>utils/helpers.ts\<close>, and the colour only
  improves with the proficiency: green from 80, blue from 60, yellow below.
\<close>

theorem getSkillColor_eq_getProficiencyColor:
  "getSkillColor = getProficiencyColor \<and>
   (getSkillColor p = ''bg-green-500'' \<longleftrightarrow> 80 \<le> p) \<and>
   (getSkillColor p = ''bg-yellow-500'' \<longleftrightarrow> p < 60)"
  by (auto simp: getSkillColor_def getProficiencyColor_def fun_eq_iff)

text \<open>
  C32 (no empty category). Every category block the Skills section renders has at
  least one skill card, so there are at most as many blocks as skills, and the section
  renders no block exactly when there are no skills.
\<close>

theorem Skills_view_groups_nonempty:
  "(\<forall>g\<in>set (Skills_view skills). snd g \<noteq> []) \<and> length (Skills_view skills) \<le> length skills \<and>
   (Skills_view skills = [] \<longleftrightarrow> skills = [])"
proof -
  have ne: "\<forall>g\<in>set (Skills_view skills). snd g \<noteq> []"
    by (auto simp: Skills_view_def category_skills_def skill_categories_def filter_empty_conv)
  have "length (Skills_view skills) = length (remdups (rev (map skill_category skills)))"
    by (simp add: Skills_view_def skill_categories_def js_array_from_set_first_occurrence)
  also have "\<dots> \<le> length skills"
    using length_remdups_leq [of "rev (map skill_category skills)"] by simp
  finally show ?thesis
    using ne by (simp add: Skills_view_def skill_categories_def js_array_from_set_first_occurrence)
qed

theorem Skills_view_groups_nonempty_witness:
  "Skills_view [demo_skill, demo_skill] \<noteq> [] \<and>
   length (Skills_view [demo_skill, demo_skill]) \<le> 2"
  using Skills_view_groups_nonempty [of "[demo_skill, demo_skill]"] by simp

end
