(* ===== verification/Html.thy ===== *)
theory Html
  imports Js_String
begin

text \<open>
  The parts of the rendered HTML that carry meaning beyond text: the anchors
  (\<^verbatim>\<open><a href target rel>\<close> and their label) the About and Projects sections
  render, and what the browser makes of their attributes. An anchor with
  \<^verbatim>\<open>target="_blank"\<close> opens a new browsing context; unless its \<^verbatim>\<open>rel\<close>
  attribute (a list of tokens separated by spaces) contains \<^verbatim>\<open>noopener\<close>, the
  opened page can reach the portfolio's window through \<^verbatim>\<open>window.opener\<close>, and unless
  it contains \<^verbatim>\<open>noreferrer\<close> the portfolio's address is sent as the referrer.
\<close>

record anchor =
  anchor_href :: string
  anchor_label :: string
  anchor_target :: "string option"
  anchor_rel :: "string option"

definition rel_tokens :: "anchor \<Rightarrow> string list" where
  "rel_tokens a = (case anchor_rel a of None \<Rightarrow> [] | Some r \<Rightarrow> js_split CHR '' '' r)"

definition isolated_new_tab :: "anchor \<Rightarrow> bool" where
  "isolated_new_tab a \<longleftrightarrow>
     (anchor_target a = Some ''_blank'' \<longrightarrow>
        ''noopener'' \<in> set (rel_tokens a) \<and> ''noreferrer'' \<in> set (rel_tokens a))"

text \<open>The attributes every external link of the sources carries.\<close>

definition external_anchor :: "string \<Rightarrow> string \<Rightarrow> anchor" where
  "external_anchor href label =
     \<lparr>anchor_href = href, anchor_label = label, anchor_target = Some ''_blank'',
      anchor_rel = Some ''noopener noreferrer''\<rparr>"

lemma external_anchor_isolated [simp]: "isolated_new_tab (external_anchor href label)"
  by (simp add: isolated_new_tab_def external_anchor_def rel_tokens_def)

lemma anchor_without_target_isolated [simp]:
  "isolated_new_tab \<lparr>anchor_href = h, anchor_label = l, anchor_target = None, anchor_rel = r\<rparr>"
  by (simp add: isolated_new_tab_def)

end
