(* ===== verification/Projects.thy ===== *)
theory Projects
  imports Html Types
begin

text \<open>
  \<^verbatim>\<open>src/frontend/src/components/sections/Projects.tsx\<close>. The projects are split
  by the truthiness of \<^verbatim>\<open>featured\<close> into the featured ones and the others
  (two \<^verbatim>\<open>filter\<close> calls); each group is rendered under its heading only when it is
  not empty. A featured card shows the technology tags
  (\<^verbatim>\<open>technologies.split(',').map(t => t.trim())\<close>, when the string is truthy), an
  other card does not; both show the GitHub and live links that are truthy, in that
  order.
\<close>

definition Projects_section_id :: string where "Projects_section_id = ''projects''"

definition featuredProjects :: "project list \<Rightarrow> project list" where
  "featuredProjects projects = filter (\<lambda>p. js_truthy_bool (project_featured p)) projects"

definition otherProjects :: "project list \<Rightarrow> project list" where
  "otherProjects projects = filter (\<lambda>p. \<not> js_truthy_bool (project_featured p)) projects"

definition tech_tags :: "project \<Rightarrow> string list" where
  "tech_tags project =
     (if js_truthy_str (project_technologies project)
      then map js_trim (js_split CHR '','' (the (project_technologies project)))
      else [])"

datatype project_link = GitHub_link string | Live_link string

definition project_links :: "project \<Rightarrow> project_link list" where
  "project_links project =
     (if js_truthy_str (project_githubUrl project) then [GitHub_link (the (project_githubUrl project))] else []) @
     (if js_truthy_str (project_liveUrl project) then [Live_link (the (project_liveUrl project))] else [])"

text \<open>
  The anchors of the links: the featured cards label them \<^verbatim>\<open>GitHub\<close> and
  \<^verbatim>\<open>Live Demo\<close>, the other cards \<^verbatim>\<open>GitHub \<rightarrow>\<close> and \<^verbatim>\<open>Demo \<rightarrow>\<close> (the arrow
  written as its UTF-8 bytes); all open in a new tab with
  \<^verbatim>\<open>rel="noopener noreferrer"\<close>.
\<close>

definition right_arrow :: string where
  "right_arrow = map char_of [226 :: nat, 134, 146]"

primrec featured_link_anchor :: "project_link \<Rightarrow> anchor" where
  "featured_link_anchor (GitHub_link u) = external_anchor u ''GitHub''"
| "featured_link_anchor (Live_link u) = external_anchor u ''Live Demo''"

primrec other_link_anchor :: "project_link \<Rightarrow> anchor" where
  "other_link_anchor (GitHub_link u) = external_anchor u (''GitHub '' @ right_arrow)"
| "other_link_anchor (Live_link u) = external_anchor u (''Demo '' @ right_arrow)"

datatype project_card = Project_card
  (pcard_key: int) (pcard_image: "string option") (pcard_name: string)
  (pcard_description: string) (pcard_tags: "string list") (pcard_links: "anchor list")

definition project_image :: "project \<Rightarrow> string option" where
  "project_image project =
     (if js_truthy_str (project_imageUrl project) then project_imageUrl project else None)"

definition featured_card :: "project \<Rightarrow> project_card" where
  "featured_card project =
     Project_card (project_id project) (project_image project) (project_name project)
       (project_description project) (tech_tags project) (map featured_link_anchor (project_links project))"

definition other_card :: "project \<Rightarrow> project_card" where
  "other_card project =
     Project_card (project_id project) (project_image project) (project_name project)
       (project_description project) [] (map other_link_anchor (project_links project))"

definition Projects_view :: "project list \<Rightarrow> (string \<times> project_card list) list" where
  "Projects_view projects =
     (if featuredProjects projects \<noteq> []
      then [(''Featured Projects'', map featured_card (featuredProjects projects))] else []) @
     (if otherProjects projects \<noteq> []
      then [(''Other Projects'', map other_card (otherProjects projects))] else [])"

definition sample_project :: "int \<Rightarrow> bool option \<Rightarrow> project" where
  "sample_project i f =
     \<lparr>project_id = i, project_name = ''Portfolio'', project_description = ''A site'',
      project_imageUrl = None, project_githubUrl = None, project_liveUrl = None,
      project_technologies = Some ''React, TypeScript ,Tailwind'', project_createdAt = None,
      project_featured = f\<rparr>"

text \<open>
  C14 (partition). The featured and the other projects together are exactly the
  projects (a permutation, no project lost or shown twice, fields unchanged); a
  project is featured exactly when its flag is \<open>true\<close>.
\<close>

theorem projects_partition:
  "mset (featuredProjects ps) + mset (otherProjects ps) = mset ps \<and>
   (\<forall>p \<in> set (featuredProjects ps). project_featured p = Some True) \<and>
   (\<forall>p \<in> set (otherProjects ps). project_featured p \<noteq> Some True)"
proof -
  have "\<And>x. js_truthy_bool x \<longleftrightarrow> x = Some True"
    by (case_tac x) simp_all
  then show ?thesis
    by (simp add: featuredProjects_def otherProjects_def mset_filter_partition)
qed

theorem projects_partition_witness:
  "featuredProjects [sample_project 1 (Some True), sample_project 2 None] = [sample_project 1 (Some True)] \<and>
   otherProjects [sample_project 1 (Some True), sample_project 2 None] = [sample_project 2 None] \<and>
   project_featured (sample_project 1 (Some True)) = Some True \<and>
   project_featured (sample_project 2 None) \<noteq> Some True"
  using projects_partition [of "[sample_project 1 (Some True), sample_project 2 None]"]
  by (simp add: featuredProjects_def otherProjects_def sample_project_def)

text \<open>
  C15 (technology tags). For a truthy technologies string, the featured card shows one
  tag per comma-separated piece (the number of commas plus one, empty pieces
  included), no tag contains a comma, and no tag begins or ends with white space.
\<close>

theorem tech_tags_pieces:
  assumes "project_technologies p = Some t" and "t \<noteq> []"
  shows "length (tech_tags p) = count_list t CHR '','' + 1 \<and>
         (\<forall>tag \<in> set (tech_tags p). CHR '','' \<notin> set tag \<and>
            (tag \<noteq> [] \<longrightarrow> \<not> js_is_space (hd tag) \<and> \<not> js_is_space (last tag)))"
  using assms set_js_trim js_trim_edges js_split_pieces
  by (fastforce simp: tech_tags_def js_split_length)

theorem tech_tags_pieces_witness:
  "tech_tags (sample_project 1 (Some True)) = [''React'', ''TypeScript'', ''Tailwind''] \<and>
   length (tech_tags (sample_project 1 (Some True))) = 3"
proof -
  have tags: "tech_tags (sample_project 1 (Some True)) = [''React'', ''TypeScript'', ''Tailwind'']"
    by code_simp
  have "project_technologies (sample_project 1 (Some True)) = Some ''React, TypeScript ,Tailwind''"
    by (simp add: sample_project_def)
  from tech_tags_pieces [OF this] show ?thesis
    using tags by simp
qed

end
