(* ===== verification/Sections.thy ===== *)
theory Sections
  imports Helpers Html Types
begin

text \<open>
  The remaining sections and the layout:
  \<^item> \<^verbatim>\<open>components/sections/Experience.tsx\<close>: a timeline of cards, each with the
    company logo or, without one, the company's first character, the title, the
    company, the optional location, the date range
    \<^verbatim>\<open>{formatDate(startDate)} - {current ? 'Present' : formatDate(endDate)}\<close> with
    the section's own \<^verbatim>\<open>formatDate\<close> (\<open>''''\<close> for a missing date, no
    \<^verbatim>\<open>try\<close>), the optional description, and a connector line below every card
    but the last;
  \<^item> \<^verbatim>\<open>components/sections/Hobbies.tsx\<close>: one card per hobby, its icon
    \<^verbatim>\<open>iconUrl || '\<close>(palette emoji)\<^verbatim>\<open>'\<close>, name, description, optional image;
  \<^item> \<^verbatim>\<open>components/sections/About.tsx\<close>: a placeholder without a profile;
    otherwise image, name, title, bio, the links that are truthy (Email as
    \<^verbatim>\<open>mailto:\<close>, LinkedIn, GitHub, Website, in that order) and the location;
  \<^item> \<^verbatim>\<open>components/layout/Header.tsx\<close> and \<^verbatim>\<open>Footer.tsx\<close>: the displayed
    name \<^verbatim>\<open>profile?.fullName || 'Portfolio'\<close>, the navigation items, and the
    copyright line (the year is the browser clock's, a parameter).
  Markup, classes and scrolling are not modelled; the models keep what each
  component shows and in which order.
\<close>

section \<open>Experience\<close>

definition Experience_section_id :: string where "Experience_section_id = ''experience''"

definition experience_formatDate :: "date_formatter \<Rightarrow> string option \<Rightarrow> js_error + string" where
  "experience_formatDate fmt dateString =
     (if \<not> js_truthy_str dateString then Inr [] else fmt (the dateString))"

definition experience_date_range :: "date_formatter \<Rightarrow> experience \<Rightarrow> js_error + string" where
  "experience_date_range fmt xp =
     (case experience_formatDate fmt (experience_startDate xp) of
        Inl e \<Rightarrow> Inl e
      | Inr start \<Rightarrow>
          (if js_truthy_bool (experience_current xp) then Inr (start @ '' - Present'')
           else (case experience_formatDate fmt (experience_endDate xp) of
                   Inl e \<Rightarrow> Inl e
                 | Inr end_date \<Rightarrow> Inr (start @ '' - '' @ end_date))))"

datatype company_mark = Company_logo string | Company_initial string

definition company_mark_of :: "experience \<Rightarrow> company_mark" where
  "company_mark_of xp =
     (if js_truthy_str (experience_companyLogoUrl xp) then Company_logo (the (experience_companyLogoUrl xp))
      else Company_initial (js_char_at (experience_company xp) 0))"

datatype experience_card = Experience_card
  (ecard_key: int) (ecard_connector: bool) (ecard_mark: company_mark) (ecard_title: string)
  (ecard_company: string) (ecard_location: "string option") (ecard_dates: string)
  (ecard_description: "string option")

definition experience_card_of ::
  "date_formatter \<Rightarrow> nat \<Rightarrow> nat \<Rightarrow> experience \<Rightarrow> js_error + experience_card" where
  "experience_card_of fmt n index xp =
     (case experience_date_range fmt xp of
        Inl e \<Rightarrow> Inl e
      | Inr dates \<Rightarrow> Inr (Experience_card (experience_id xp) (int index \<noteq> int n - 1)
          (company_mark_of xp) (experience_title xp) (experience_company xp)
          (if js_truthy_str (experience_location xp) then experience_location xp else None)
          dates
          (if js_truthy_str (experience_description xp) then experience_description xp else None)))"

definition Experience_view :: "date_formatter \<Rightarrow> experience list \<Rightarrow> js_error + experience_card list" where
  "Experience_view fmt experiences =
     js_map_result (\<lambda>(index, xp). experience_card_of fmt (length experiences) index xp)
       (zip [0..<length experiences] experiences)"

section \<open>Hobbies\<close>

definition Hobbies_section_id :: string where "Hobbies_section_id = ''hobbies''"

definition palette_emoji :: string where
  "palette_emoji = map char_of [240 :: nat, 159, 142, 168]"

datatype hobby_card = Hobby_card
  (hcard_key: int) (hcard_icon: string) (hcard_name: string) (hcard_description: string)
  (hcard_image: "string option")

definition hobby_card_of :: "hobby \<Rightarrow> hobby_card" where
  "hobby_card_of hobby =
     Hobby_card (hobby_id hobby) (js_or_str (hobby_iconUrl hobby) palette_emoji) (hobby_name hobby)
       (hobby_description hobby)
       (if js_truthy_str (hobby_imageUrl hobby) then hobby_imageUrl hobby else None)"

definition Hobbies_view :: "hobby list \<Rightarrow> hobby_card list" where
  "Hobbies_view hobbies = map hobby_card_of hobbies"

section \<open>About\<close>

definition About_section_id :: string where "About_section_id = ''about''"

datatype about_link = Email_link string | LinkedIn_link string | GitHub_profile_link string | Website_link string

definition about_links :: "profile \<Rightarrow> about_link list" where
  "about_links p =
     (if js_truthy_str (profile_email p) then [Email_link (''mailto:'' @ the (profile_email p))] else []) @
     (if js_truthy_str (profile_linkedinUrl p) then [LinkedIn_link (the (profile_linkedinUrl p))] else []) @
     (if js_truthy_str (profile_githubUrl p) then [GitHub_profile_link (the (profile_githubUrl p))] else []) @
     (if js_truthy_str (profile_websiteUrl p) then [Website_link (the (profile_websiteUrl p))] else [])"

text \<open>The anchor each link renders: \<^verbatim>\<open>Email\<close> in the same tab, the others in a new one.\<close>

primrec about_anchor :: "about_link \<Rightarrow> anchor" where
  "about_anchor (Email_link h) =
     \<lparr>anchor_href = h, anchor_label = ''Email'', anchor_target = None, anchor_rel = None\<rparr>"
| "about_anchor (LinkedIn_link u) = external_anchor u ''LinkedIn''"
| "about_anchor (GitHub_profile_link u) = external_anchor u ''GitHub''"
| "about_anchor (Website_link u) = external_anchor u ''Website''"

datatype about_view =
    About_placeholder
  | About_profile (about_image: "string option") (about_name: string) (about_title: string)
      (about_bio: string) (about_link_list: "about_link list") (about_location: "string option")

definition About_view :: "profile option \<Rightarrow> about_view" where
  "About_view profile =
     (case profile of
        None \<Rightarrow> About_placeholder
      | Some p \<Rightarrow> About_profile
          (if js_truthy_str (profile_profileImageUrl p) then profile_profileImageUrl p else None)
          (profile_fullName p) (profile_title p) (profile_bio p) (about_links p)
          (if js_truthy_str (profile_location p) then profile_location p else None))"

section \<open>Header and footer\<close>

definition display_name :: "profile option \<Rightarrow> string" where
  "display_name profile = js_or_str (map_option profile_fullName profile) ''Portfolio''"

definition navigationItems :: "(string \<times> string) list" where
  "navigationItems =
     [(''about'', ''About''), (''skills'', ''Skills''), (''experience'', ''Experience''),
      (''projects'', ''Projects''), (''hobbies'', ''Hobbies''), (''contact'', ''Contact'')]"

definition Header_view :: "profile option \<Rightarrow> string \<times> (string \<times> string) list" where
  "Header_view profile = (display_name profile, navigationItems)"

definition copyright_sign :: string where
  "copyright_sign = map char_of [194 :: nat, 169]"

definition Footer_view :: "nat \<Rightarrow> profile option \<Rightarrow> string" where
  "Footer_view currentYear profile =
     copyright_sign @ '' '' @ js_nat_to_string currentYear @ '' '' @ display_name profile @ ''. All rights reserved.''"

section \<open>Properties\<close>

lemma Experience_view_keys:
  "Experience_view fmt xs = Inr cards \<Longrightarrow> map ecard_key cards = map experience_id xs"
proof -
  assume "Experience_view fmt xs = Inr cards"
  then have "map ecard_key cards = map (experience_id \<circ> snd) (zip [0..<length xs] xs)"
    unfolding Experience_view_def
    by (rule js_map_result_Inr_map) (auto simp: experience_card_of_def split: sum.splits)
  then show ?thesis by (simp flip: map_map)
qed

definition sample_experience :: "bool option \<Rightarrow> string option \<Rightarrow> experience" where
  "sample_experience cur end_date =
     \<lparr>experience_id = 7, experience_title = ''Engineer'', experience_company = ''Acme'',
      experience_location = None, experience_startDate = Some ''2020-01-01'',
      experience_endDate = end_date, experience_current = cur, experience_description = None,
      experience_companyLogoUrl = None\<rparr>"

definition strict_formatter :: date_formatter where
  "strict_formatter s = (if s = ''soon'' then Inl (RangeError ''Invalid time value'') else Inr (''on '' @ s))"

definition iso_month :: date_formatter where
  "iso_month s = (if s = [] then Inl (RangeError ''Invalid time value'') else Inr (take 7 s))"

text \<open>
  C16 (current position). For a card whose \<^verbatim>\<open>current\<close> flag is true the date
  range ends in \<^verbatim>\<open>Present\<close> and the end date is never formatted: whatever it holds
  (absent, or a value the formatter rejects) it does not affect the card.
\<close>

theorem experience_current_present:
  assumes "js_truthy_bool (experience_current xp)"
    and "experience_formatDate fmt (experience_startDate xp) = Inr start"
  shows "experience_date_range fmt xp = Inr (start @ '' - Present'')"
  using assms by (simp add: experience_date_range_def)

theorem experience_current_present_witness:
  "experience_date_range iso_month (sample_experience (Some True) (Some [])) = Inr ''2020-01 - Present''"
proof -
  have "experience_formatDate iso_month (experience_startDate (sample_experience (Some True) (Some []))) =
        Inr ''2020-01''"
    by (simp add: experience_formatDate_def sample_experience_def iso_month_def)
  from experience_current_present [OF _ this] show ?thesis
    by (simp add: sample_experience_def)
qed

text \<open>
  C17 (timeline connector). When the section renders, it renders one card per
  experience, in order, and exactly the cards other than the last carry the connector
  line.
\<close>

theorem Experience_view_connectors:
  assumes "Experience_view fmt xs = Inr cards"
  shows "length cards = length xs \<and>
         (\<forall>i < length xs. ecard_key (cards ! i) = experience_id (xs ! i) \<and>
            (ecard_connector (cards ! i) \<longleftrightarrow> Suc i \<noteq> length xs))"
proof -
  let ?f = "\<lambda>(index, xp). experience_card_of fmt (length xs) index xp"
  have map: "js_map_result ?f (zip [0..<length xs] xs) = Inr cards"
    using assms by (simp add: Experience_view_def)
  then have len: "length cards = length xs"
    by (simp add: js_map_result_Inr_length [OF map])
  have "\<forall>i < length xs. ecard_key (cards ! i) = experience_id (xs ! i) \<and>
          (ecard_connector (cards ! i) \<longleftrightarrow> Suc i \<noteq> length xs)"
  proof (intro allI impI)
    fix i
    assume i: "i < length xs"
    then have "?f (zip [0..<length xs] xs ! i) = Inr (cards ! i)"
      using js_map_result_Inr_nth [OF map] by simp
    with i show "ecard_key (cards ! i) = experience_id (xs ! i) \<and>
        (ecard_connector (cards ! i) \<longleftrightarrow> Suc i \<noteq> length xs)"
      by (auto simp: experience_card_of_def split: sum.splits dest!: sym [of _ "cards ! i"])
  qed
  with len show ?thesis by blast
qed

theorem Experience_view_connectors_witness:
  "Experience_view iso_month [sample_experience None (Some ''2021-06-30''), sample_experience (Some True) None] =
     Inr [Experience_card 7 True (Company_initial ''A'') ''Engineer'' ''Acme'' None ''2020-01 - 2021-06'' None,
          Experience_card 7 False (Company_initial ''A'') ''Engineer'' ''Acme'' None ''2020-01 - Present'' None] \<and>
   ecard_connector (Experience_card 7 True (Company_initial ''A'') ''Engineer'' ''Acme'' None ''2020-01 - 2021-06'' None) \<and>
   \<not> ecard_connector (Experience_card 7 False (Company_initial ''A'') ''Engineer'' ''Acme'' None ''2020-01 - Present'' None)"
proof -
  let ?xs = "[sample_experience None (Some ''2021-06-30''), sample_experience (Some True) None]"
  let ?cards = "[Experience_card 7 True (Company_initial ''A'') ''Engineer'' ''Acme'' None ''2020-01 - 2021-06'' None,
          Experience_card 7 False (Company_initial ''A'') ''Engineer'' ''Acme'' None ''2020-01 - Present'' None]"
  have view: "Experience_view iso_month ?xs = Inr ?cards"
    by code_simp
  from Experience_view_connectors [OF view] have "ecard_connector (?cards ! 0) \<and> \<not> ecard_connector (?cards ! 1)"
    by simp
  with view show ?thesis by simp
qed

text \<open>
  C26 (render errors of the timeline). The Experience section has no
  \<^verbatim>\<open>try\<close>: it fails to render exactly when the date formatter rejects the start
  date of some experience, or the end date of one whose \<^verbatim>\<open>current\<close> flag is not
  set. Missing and empty dates never reach the formatter: only a present, non-empty
  date that the formatter rejects makes the section fail.
\<close>

theorem Experience_view_error_iff:
  "(\<exists>e. Experience_view fmt xs = Inl e) \<longleftrightarrow>
   (\<exists>xp\<in>set xs.
      (js_truthy_str (experience_startDate xp) \<and> (\<exists>e. fmt (the (experience_startDate xp)) = Inl e)) \<or>
      (\<not> js_truthy_bool (experience_current xp) \<and> js_truthy_str (experience_endDate xp) \<and>
       (\<exists>e. fmt (the (experience_endDate xp)) = Inl e)))"
proof -
  have card: "(\<exists>e. experience_card_of fmt n i xp = Inl e) \<longleftrightarrow>
      (js_truthy_str (experience_startDate xp) \<and> (\<exists>e. fmt (the (experience_startDate xp)) = Inl e)) \<or>
      (\<not> js_truthy_bool (experience_current xp) \<and> js_truthy_str (experience_endDate xp) \<and>
       (\<exists>e. fmt (the (experience_endDate xp)) = Inl e))" for n i xp
    by (auto simp: experience_card_of_def experience_date_range_def experience_formatDate_def
        split: sum.splits)
  show ?thesis
    unfolding Experience_view_def js_map_result_Inl_iff
    by (simp only: card split_beta, rule bex_zip_upt)
qed

theorem Experience_view_error_iff_witness:
  "(\<exists>e. Experience_view strict_formatter [sample_experience (Some True) (Some ''soon'')] = Inl e) = False \<and>
   (\<exists>e. Experience_view strict_formatter [sample_experience None (Some ''soon'')] = Inl e)"
proof -
  have a: "\<not> (\<exists>e. Experience_view strict_formatter [sample_experience (Some True) (Some ''soon'')] = Inl e)"
    using Experience_view_error_iff [of strict_formatter "[sample_experience (Some True) (Some ''soon'')]"]
    by (simp add: sample_experience_def experience_formatDate_def strict_formatter_def)
  have b: "\<exists>e. Experience_view strict_formatter [sample_experience None (Some ''soon'')] = Inl e"
    using Experience_view_error_iff [of strict_formatter "[sample_experience None (Some ''soon'')]"]
    by (simp add: sample_experience_def experience_formatDate_def strict_formatter_def)
  from a b show ?thesis by simp
qed

text \<open>
  C27 (two date formatters). The helper \<^verbatim>\<open>formatDate\<close> of \<^verbatim>\<open>utils/helpers.ts\<close>
  is the Experience section's own \<^verbatim>\<open>formatDate\<close> with a \<^verbatim>\<open>catch\<close> that returns
  the date as given and with \<^verbatim>\<open>Present\<close> in place of the empty string for a
  missing date, on every date the browser does not format to the empty string. The
  section does not use the helper, so its missing dates show as empty and a rejected
  date aborts its rendering.
\<close>

theorem formatDate_wraps_experience_formatDate:
  assumes "\<And>d. fmt d \<noteq> Inr []"
  shows "formatDate fmt dateString =
     (case experience_formatDate fmt dateString of
        Inl e \<Rightarrow> the dateString
      | Inr r \<Rightarrow> (if r = [] then ''Present'' else r))"
  using assms by (auto simp: formatDate_def experience_formatDate_def split: sum.splits)

theorem formatDate_wraps_experience_formatDate_witness:
  "formatDate strict_formatter (Some ''soon'') = ''soon'' \<and>
   experience_formatDate strict_formatter (Some ''soon'') = Inl (RangeError ''Invalid time value'') \<and>
   formatDate strict_formatter None = ''Present'' \<and> experience_formatDate strict_formatter None = Inr []"
proof -
  have nz: "\<And>d. strict_formatter d \<noteq> Inr []"
    by (simp add: strict_formatter_def)
  have "formatDate strict_formatter (Some ''soon'') = ''soon''"
    using formatDate_wraps_experience_formatDate [where fmt = strict_formatter and dateString = "Some ''soon''", OF nz]
    by (simp add: experience_formatDate_def strict_formatter_def)
  moreover have "formatDate strict_formatter None = ''Present''"
    using formatDate_wraps_experience_formatDate [where fmt = strict_formatter and dateString = None, OF nz]
    by (simp add: experience_formatDate_def)
  ultimately show ?thesis
    by (simp add: experience_formatDate_def strict_formatter_def)
qed

text \<open>
  C29 (the displayed name). The header and the footer show the same name, the
  profile's \<^verbatim>\<open>fullName\<close> or \<^verbatim>\<open>Portfolio\<close> without a profile; with a profile
  the About heading shows \<^verbatim>\<open>fullName\<close> as it is, so the three agree except on an
  empty name, where the header and footer fall back to \<^verbatim>\<open>Portfolio\<close> and the About
  heading is empty.
\<close>

theorem displayed_name_agrees:
  "fst (Header_view pr) = display_name pr \<and>
   Footer_view y pr = copyright_sign @ '' '' @ js_nat_to_string y @ '' '' @ fst (Header_view pr) @
     ''. All rights reserved.'' \<and>
   display_name None = ''Portfolio'' \<and>
   fst (Header_view (Some p)) =
     (if about_name (About_view (Some p)) = [] then ''Portfolio'' else about_name (About_view (Some p)))"
  by (simp add: Header_view_def Footer_view_def display_name_def About_view_def)

end
