(* ===== verification/App_View.thy ===== *)
theory App_View
  imports Hook_Steps Skills Projects Sections
begin

text \<open>
  \<^verbatim>\<open>src/frontend/src/App.tsx\<close>: the screen rendered from the hook's state. While
  \<^verbatim>\<open>loading\<close> it is the spinner (\<^verbatim>\<open>LoadingSpinner\<close>, static markup); else,
  when \<^verbatim>\<open>error\<close> is truthy, the full-page error message; else the page: the header,
  then in \<^verbatim>\<open><main>\<close> the About, Skills, Experience, Projects, Hobbies and Contact
  sections, then the footer. The Contact section's source is not part of the
  repository and is kept as an opaque element. The date formatter and the current
  year are the browser's, parameters of the view.
\<close>

record page =
  page_header :: "string \<times> (string \<times> string) list"
  page_about :: about_view
  page_skills :: "(string \<times> skill_card list) list"
  page_experience :: "js_error + experience_card list"
  page_projects :: "(string \<times> project_card list) list"
  page_hobbies :: "hobby_card list"
  page_footer :: string

text \<open>
  \<^verbatim>\<open>src/frontend/src/components/ui/LoadingSpinner.tsx\<close>: the spinner's
  accessible markup, its ARIA role, its label and the screen-reader text.
\<close>

record spinner_view =
  spinner_role :: string
  spinner_label :: string
  spinner_text :: string

definition LoadingSpinner :: spinner_view where
  "LoadingSpinner =
     \<lparr>spinner_role = ''status'', spinner_label = ''Loading portfolio content'',
      spinner_text = ''Loading...''\<rparr>"

text \<open>The full-page error of \<^verbatim>\<open>App\<close>: a fixed heading and hint.\<close>

definition load_error_heading :: string where
  "load_error_heading = ''Failed to Load Portfolio''"

definition load_error_hint :: string where
  "load_error_hint = ''Please try refreshing the page.''"

datatype app_screen =
    Loading_spinner spinner_view
  | Load_error_screen string string
  | Portfolio_page page

definition page_of :: "date_formatter \<Rightarrow> nat \<Rightarrow> portfolio_state \<Rightarrow> page" where
  "page_of fmt year s =
     \<lparr>page_header = Header_view (profile s), page_about = About_view (profile s),
      page_skills = Skills_view (skills s), page_experience = Experience_view fmt (experiences s),
      page_projects = Projects_view (projects s), page_hobbies = Hobbies_view (hobbies s),
      page_footer = Footer_view year (profile s)\<rparr>"

definition App_view :: "date_formatter \<Rightarrow> nat \<Rightarrow> portfolio_state \<Rightarrow> app_screen" where
  "App_view fmt year s =
     (if loading s then Loading_spinner LoadingSpinner
      else if js_truthy_str (error s) then Load_error_screen load_error_heading load_error_hint
      else Portfolio_page (page_of fmt year s))"

text \<open>The ids of the sections \<^verbatim>\<open><main>\<close> renders before Contact, in order.\<close>

definition main_section_ids :: "string list" where
  "main_section_ids =
     [About_section_id, Skills_section_id, Experience_section_id, Projects_section_id, Hobbies_section_id]"

section \<open>Navigation\<close>

text \<open>
  \<^verbatim>\<open>scrollToSection\<close> of \<^verbatim>\<open>Header.tsx\<close>: \<^verbatim>\<open>document.getElementById(id)\<close>
  finds the first element carrying the id, and the click scrolls it into view or, with
  no such element, does nothing. The document is represented by the ids of its
  elements in document order: the sections of \<^verbatim>\<open><main>\<close> (no other element of
  the page's components has an id), then whatever ids the Contact section renders, a
  parameter since its source is not in the repository. The result is the position of
  the element scrolled to.
\<close>

fun getElementById :: "string list \<Rightarrow> string \<Rightarrow> nat option" where
  "getElementById [] sectionId = None"
| "getElementById (x # xs) sectionId =
     (if x = sectionId then Some 0 else map_option Suc (getElementById xs sectionId))"

definition scrollToSection :: "string list \<Rightarrow> string \<Rightarrow> nat option" where
  "scrollToSection document sectionId = getElementById document sectionId"

definition page_document :: "string list \<Rightarrow> string list" where
  "page_document contact_ids = main_section_ids @ contact_ids"

text \<open>The click handler of each navigation button, in the order of the buttons.\<close>

definition navigation_clicks :: "string list \<Rightarrow> nat option list" where
  "navigation_clicks contact_ids =
     map (\<lambda>item. scrollToSection (page_document contact_ids) (fst item)) navigationItems"

section \<open>Keys of the rendered lists\<close>

text \<open>
  React requires the \<^verbatim>\<open>key\<close>s of the children of one list to be distinct. The
  keyed lists of the page: the category blocks of Skills (keyed by the category), the
  skill cards of one category, the cards of the featured and of the other projects,
  the experience cards and the hobby cards (each keyed by the entity's id).
\<close>

definition page_keys_distinct :: "page \<Rightarrow> bool" where
  "page_keys_distinct pg \<longleftrightarrow>
     distinct (map fst (page_skills pg)) \<and>
     (\<forall>g\<in>set (page_skills pg). distinct (map card_key (snd g))) \<and>
     (\<forall>g\<in>set (page_projects pg). distinct (map pcard_key (snd g))) \<and>
     (case page_experience pg of Inl e \<Rightarrow> True | Inr cards \<Rightarrow> distinct (map ecard_key cards)) \<and>
     distinct (map hcard_key (page_hobbies pg))"

section \<open>Images and links of the page\<close>

text \<open>
  The image sources (\<^verbatim>\<open><img src>\<close>) and the anchors the page renders, in
  document order: the profile image and links of About, the skill icons, the project
  images and links, the company logos of the timeline and the hobby images.
\<close>

primrec mark_image :: "company_mark \<Rightarrow> string list" where
  "mark_image (Company_logo u) = [u]"
| "mark_image (Company_initial c) = []"

primrec about_images :: "about_view \<Rightarrow> string list" where
  "about_images About_placeholder = []"
| "about_images (About_profile img n t b ls loc) = opt_list img"

primrec about_anchors :: "about_view \<Rightarrow> anchor list" where
  "about_anchors About_placeholder = []"
| "about_anchors (About_profile img n t b ls loc) = map about_anchor ls"

definition page_images :: "page \<Rightarrow> string list" where
  "page_images pg =
     about_images (page_about pg) @
     concat (map (\<lambda>g. concat (map (opt_list \<circ> card_icon) (snd g))) (page_skills pg)) @
     concat (map (\<lambda>g. concat (map (opt_list \<circ> pcard_image) (snd g))) (page_projects pg)) @
     (case page_experience pg of Inl e \<Rightarrow> [] | Inr cards \<Rightarrow> concat (map (mark_image \<circ> ecard_mark) cards)) @
     concat (map (opt_list \<circ> hcard_image) (page_hobbies pg))"

definition page_anchors :: "page \<Rightarrow> anchor list" where
  "page_anchors pg =
     about_anchors (page_about pg) @ concat (map (\<lambda>g. concat (map pcard_links (snd g))) (page_projects pg))"

text \<open>Each collection of the state carries distinct ids (the data model's invariant).\<close>

definition ids_unique :: "portfolio_state \<Rightarrow> bool" where
  "ids_unique s \<longleftrightarrow>
     distinct (map skill_id (skills s)) \<and> distinct (map project_id (projects s)) \<and>
     distinct (map hobby_id (hobbies s)) \<and> distinct (map experience_id (experiences s))"

lemma getElementById_None [simp]: "getElementById xs a = None \<longleftrightarrow> a \<notin> set xs"
  by (induction xs) auto

lemma card_keys [simp]:
  "pcard_key (featured_card p) = project_id p"
  "pcard_key (other_card p) = project_id p"
  "card_key (skill_card_of x) = skill_id x"
  "hcard_key (hobby_card_of h) = hobby_id h"
  by (simp_all add: featured_card_def other_card_def skill_card_of_def hobby_card_of_def)

lemma distinct_keys_filter: "distinct (map f xs) \<Longrightarrow> distinct (map f (filter P xs))"
  by (simp add: distinct_map_filter)

text \<open>
  C24 (well-formed page). When every collection of the hook's state has distinct ids,
  every keyed list of the page has distinct keys: the Skills categories, the skills of
  each category, the featured and the other projects, the experience timeline and the
  hobbies, so React can reconcile each list element by element.
\<close>

theorem page_keys_wellformed:
  assumes "ids_unique s"
  shows "page_keys_distinct (page_of fmt year s)"
proof -
  from assms have ids: "distinct (map skill_id (skills s))" "distinct (map project_id (projects s))"
    "distinct (map hobby_id (hobbies s))" "distinct (map experience_id (experiences s))"
    by (simp_all add: ids_unique_def)
  have sk: "distinct (map fst (Skills_view (skills s)))"
    by (simp add: Skills_view_def comp_def skill_categories_def js_array_from_set_distinct)
  have skc: "\<forall>g\<in>set (Skills_view (skills s)). distinct (map card_key (snd g))"
    using ids(1) by (auto simp: Skills_view_def category_skills_def comp_def distinct_keys_filter)
  have pr: "\<forall>g\<in>set (Projects_view (projects s)). distinct (map pcard_key (snd g))"
    using ids(2) by (auto simp: Projects_view_def featuredProjects_def otherProjects_def comp_def distinct_keys_filter)
  have ex: "case Experience_view fmt (experiences s) of Inl e \<Rightarrow> True | Inr cards \<Rightarrow> distinct (map ecard_key cards)"
    using ids(4) by (auto split: sum.splits dest!: Experience_view_keys)
  show ?thesis
    using sk skc pr ex ids(3) by (simp add: page_keys_distinct_def page_of_def Hobbies_view_def comp_def)
qed

theorem page_keys_wellformed_witness:
  "ids_unique (usePortfolioData server_profile_404) \<and>
   page_keys_distinct (page_of iso_month 2026 (usePortfolioData server_profile_404))"
proof -
  have u: "ids_unique (usePortfolioData server_profile_404)"
    by (simp add: ids_unique_def usePortfolioData_profile_404)
  with page_keys_wellformed [OF u] show ?thesis by simp
qed

text \<open>
  C25 (navigation). Clicking one of the first five navigation buttons scrolls to the
  section of the same name (the \<open>i\<close>-th button to the \<open>i\<close>-th section of
  \<^verbatim>\<open><main>\<close>), whatever the Contact section renders; the Contact button scrolls
  only when the Contact section renders an element with the id \<^verbatim>\<open>contact\<close>, and
  otherwise does nothing.
\<close>

theorem navigation_scrolls_to_sections:
  "take 5 (navigation_clicks cids) = map Some [0..<5] \<and>
   take 5 (page_document cids) = take 5 (map fst navigationItems) \<and>
   length (navigation_clicks cids) = 6 \<and>
   (navigation_clicks cids ! 5 = None \<longleftrightarrow> ''contact'' \<notin> set cids)"
  by (simp add: navigation_clicks_def scrollToSection_def page_document_def navigationItems_def
      main_section_ids_def About_section_id_def Skills_section_id_def Experience_section_id_def
      Projects_section_id_def Hobbies_section_id_def upt_rec)

lemma about_links_href: "l \<in> set (about_links p) \<Longrightarrow> anchor_href (about_anchor l) \<noteq> []"
  by (auto simp: about_links_def external_anchor_def split: if_splits)

lemma about_anchor_isolated [simp]: "isolated_new_tab (about_anchor l)"
  by (cases l) simp_all

lemma About_view_urls:
  "u \<in> set (about_images (About_view pr)) \<Longrightarrow> u \<noteq> []"
  "a \<in> set (about_anchors (About_view pr)) \<Longrightarrow> anchor_href a \<noteq> []"
  by (auto simp: About_view_def about_links_href split: option.splits)

lemma project_links_href:
  "l \<in> set (project_links p) \<Longrightarrow>
   anchor_href (featured_link_anchor l) \<noteq> [] \<and> anchor_href (other_link_anchor l) \<noteq> []"
  by (auto simp: project_links_def external_anchor_def split: if_splits)

lemma project_link_anchors_isolated [simp]:
  "isolated_new_tab (featured_link_anchor l)" "isolated_new_tab (other_link_anchor l)"
  by (cases l; simp)+

lemma project_card_urls:
  "u \<in> set (opt_list (pcard_image (featured_card p))) \<Longrightarrow> u \<noteq> []"
  "u \<in> set (opt_list (pcard_image (other_card p))) \<Longrightarrow> u \<noteq> []"
  "a \<in> set (pcard_links (featured_card p)) \<Longrightarrow> anchor_href a \<noteq> [] \<and> isolated_new_tab a"
  "a \<in> set (pcard_links (other_card p)) \<Longrightarrow> anchor_href a \<noteq> [] \<and> isolated_new_tab a"
  by (auto simp: featured_card_def other_card_def project_image_def dest: project_links_href)

lemma Projects_view_urls:
  "g \<in> set (Projects_view ps) \<Longrightarrow> c \<in> set (snd g) \<Longrightarrow>
   (\<forall>u\<in>set (opt_list (pcard_image c)). u \<noteq> []) \<and>
   (\<forall>a\<in>set (pcard_links c). anchor_href a \<noteq> [] \<and> isolated_new_tab a)"
  by (auto simp: Projects_view_def split: if_splits dest: project_card_urls)

lemma Skills_view_urls:
  "g \<in> set (Skills_view xs) \<Longrightarrow> c \<in> set (snd g) \<Longrightarrow> u \<in> set (opt_list (card_icon c)) \<Longrightarrow> u \<noteq> []"
  by (auto simp: Skills_view_def skill_card_of_def)

lemma Experience_view_urls:
  "Experience_view fmt xs = Inr cards \<Longrightarrow> c \<in> set cards \<Longrightarrow> u \<in> set (mark_image (ecard_mark c)) \<Longrightarrow> u \<noteq> []"
  unfolding Experience_view_def
  by (drule (1) js_map_result_Inr_set)
     (auto simp: experience_card_of_def company_mark_of_def eq_commute [of "[]"] split: sum.splits if_splits)

lemma Hobbies_view_urls:
  "c \<in> set (Hobbies_view hs) \<Longrightarrow> u \<in> set (opt_list (hcard_image c)) \<Longrightarrow> u \<noteq> []"
  by (auto simp: Hobbies_view_def hobby_card_of_def)

definition sample_hobby :: hobby where
  "sample_hobby =
     \<lparr>hobby_id = 3, hobby_name = ''Climbing'', hobby_description = ''Bouldering'',
      hobby_imageUrl = Some ''climb.png'', hobby_iconUrl = Some []\<rparr>"

definition sample_state :: portfolio_state where
  "sample_state =
     initial_state\<lparr>profile := Some (sample_profile\<lparr>profile_linkedinUrl := Some ''https://linkedin.com/in/jd''\<rparr>),
       hobbies := [sample_hobby], loading := False\<rparr>"

text \<open>
  C30 (no empty source or address). Every image source and every link address the page
  renders is a non-empty string: each optional URL is rendered behind its JSX guard,
  which is false for both a missing and an empty string.
\<close>

theorem page_urls_nonempty:
  "\<forall>u\<in>set (page_images (page_of fmt year s) @ map anchor_href (page_anchors (page_of fmt year s))).
     u \<noteq> []"
proof -
  have img: "u \<noteq> []" if "u \<in> set (page_images (page_of fmt year s))" for u
    using that
    by (cases "Experience_view fmt (experiences s)")
       (auto simp: page_images_def page_of_def
        dest: About_view_urls(1) Skills_view_urls Hobbies_view_urls Experience_view_urls Projects_view_urls)
  have href: "anchor_href a \<noteq> []" if "a \<in> set (page_anchors (page_of fmt year s))" for a
    using that
    by (auto simp: page_anchors_def page_of_def dest: About_view_urls(2) Projects_view_urls)
  from img href show ?thesis by (auto simp: eq_commute [of "[]"])
qed

theorem page_urls_nonempty_witness:
  "page_images (page_of iso_month 2026 sample_state) = [''climb.png''] \<and> ''climb.png'' \<noteq> []"
proof -
  have imgs: "page_images (page_of iso_month 2026 sample_state) = [''climb.png'']"
    by (simp add: page_images_def page_of_def sample_state_def initial_state_def sample_profile_def
        About_view_def Skills_view_def skill_categories_def js_array_from_set_def Projects_view_def
        featuredProjects_def otherProjects_def Experience_view_def Hobbies_view_def hobby_card_of_def
        sample_hobby_def)
  with page_urls_nonempty [of iso_month 2026 sample_state] show ?thesis by simp
qed

text \<open>
  C31 (new tabs are isolated). Every link of the page that opens a new tab (the
  LinkedIn, GitHub and Website links of About and every project link) carries
  \<^verbatim>\<open>rel\<close> tokens \<^verbatim>\<open>noopener\<close> and \<^verbatim>\<open>noreferrer\<close>, so the opened site cannot
  reach the portfolio's window and receives no referrer; the Email link opens in the
  same tab.
\<close>

theorem page_links_isolated:
  "\<forall>a\<in>set (page_anchors (page_of fmt year s)). isolated_new_tab a"
  by (auto simp: page_anchors_def page_of_def About_view_def dest: Projects_view_urls split: option.splits)

theorem page_links_isolated_witness:
  "page_anchors (page_of iso_month 2026 sample_state) = [external_anchor ''https://linkedin.com/in/jd'' ''LinkedIn''] \<and>
   isolated_new_tab (external_anchor ''https://linkedin.com/in/jd'' ''LinkedIn'')"
proof -
  have links: "page_anchors (page_of iso_month 2026 sample_state) = [external_anchor ''https://linkedin.com/in/jd'' ''LinkedIn'']"
    by (simp add: page_anchors_def page_of_def sample_state_def initial_state_def sample_profile_def
        About_view_def about_links_def Projects_view_def featuredProjects_def otherProjects_def)
  with page_links_isolated [of iso_month 2026 sample_state] show ?thesis by simp
qed

end
