(* ===== verification/Hook_Order.thy ===== *)
theory Hook_Order
  imports Hook_Steps
begin

text \<open>
  The order in which the guarded blocks of \<^verbatim>\<open>fetchPortfolioData\<close>
  (\<^verbatim>\<open>src/frontend/src/hooks/usePortfolioData.ts\<close>) write the data holders, over
  the small-step semantics of \<open>Hook_Steps\<close>. After \<^verbatim>\<open>Promise.all\<close> resolves
  to the responses \<open>rs\<close>, block \<open>k\<close> writes holder \<open>k\<close> (profile, skills,
  projects, hobbies, experiences, in that order) and nothing else, with the value
  \<open>accepted\<close> of its response; a throwing block writes nothing. So at every point of
  every run the data part of the state is \<open>accepted_upto k rs\<close>: the first \<open>k\<close>
  holders written, the others still at their defaults.
\<close>

definition responses_404 :: responses where
  "responses_404 =
     \<lparr>profileRes = Response 404 Malformed_json, skillsRes = Response 200 (Json [sample_skill]),
      projectsRes = Response 200 (Json []), hobbiesRes = Response 200 (Json []),
      experiencesRes = Response 200 (Json [])\<rparr>"

definition accepted_upto :: "nat \<Rightarrow> responses \<Rightarrow> portfolio_data" where
  "accepted_upto k rs =
     \<lparr>pd_profile = (if 0 < k then accepted (profileRes rs) None else None),
      pd_skills = (if 1 < k then accepted (skillsRes rs) [] else []),
      pd_projects = (if 2 < k then accepted (projectsRes rs) [] else []),
      pd_hobbies = (if 3 < k then accepted (hobbiesRes rs) [] else []),
      pd_experiences = (if 4 < k then accepted (experiencesRes rs) [] else [])\<rparr>"

text \<open>The data part is a prefix of the accepted values of the joined responses.\<close>

definition written_prefix :: "server \<Rightarrow> portfolio_state \<Rightarrow> bool" where
  "written_prefix b s =
     (case promise_all b of
        Inl e \<Rightarrow> portfolio_data_of s = portfolio_data_of initial_state
      | Inr rs \<Rightarrow> (\<exists>k\<le>5. portfolio_data_of s = accepted_upto k rs))"

fun order_inv :: "server \<Rightarrow> hook_config \<Rightarrow> bool" where
  "order_inv b (Resolving k rs, s) =
     (promise_all b = Inr rs \<and> k \<le> 5 \<and> portfolio_data_of s = accepted_upto k rs)"
| "order_inv b (Catching e, s) = written_prefix b s"
| "order_inv b (Finalizing, s) = written_prefix b s"
| "order_inv b (Settled, s) = written_prefix b s"
| "order_inv b (p, s) = (portfolio_data_of s = portfolio_data_of initial_state)"

lemma accepted_upto_0 [simp]: "accepted_upto 0 rs = portfolio_data_of initial_state"
  by (simp add: accepted_upto_def portfolio_data_of_def initial_state_def)

lemma handle_response_Normal_decodes: "handle_response r f s = Normal s' \<Longrightarrow> decodes r"
  by (auto simp: handle_response_eq decodes_def split: if_splits json_body.splits)

lemma handle_response_Throw_state: "handle_response r f s = Throw e s' \<Longrightarrow> s' = s"
  by (auto simp: handle_response_eq split: if_splits json_body.splits)

lemma resolve_resource_Throw_state: "resolve_resource k rs s = Throw e s' \<Longrightarrow> s' = s"
  by (induction k rs rule: resolve_resource.induct) (auto dest: handle_response_Throw_state)

lemma resolve_resource_Normal_data:
  assumes "k < 5" and "resolve_resource k rs s = Normal s'"
    and "portfolio_data_of s = accepted_upto k rs"
  shows "portfolio_data_of s' = accepted_upto (Suc k) rs"
proof -
  have "k = 0 \<or> k = 1 \<or> k = 2 \<or> k = 3 \<or> k = 4"
    using assms(1) by auto
  then show ?thesis
    using assms(2,3)
    by (elim disjE)
       (auto simp: eval_nat_numeral accepted_upto_def portfolio_data_of_def handle_response_eq
          accepted_def split: if_splits json_body.splits)
qed

lemma portfolio_data_of_frame [simp]:
  "portfolio_data_of (s\<lparr>loading := l\<rparr>) = portfolio_data_of s"
  "portfolio_data_of (s\<lparr>error := e\<rparr>) = portfolio_data_of s"
  by (simp_all add: portfolio_data_of_def)

lemma written_prefix_initial:
  "portfolio_data_of s = portfolio_data_of initial_state \<Longrightarrow> written_prefix b s"
  by (auto simp: written_prefix_def split: sum.splits intro: exI [of _ 0])

lemma cycle_step_order: "cycle_step b c c' \<Longrightarrow> order_inv b c \<Longrightarrow> order_inv b c'"
proof (induction rule: cycle_step.induct)
  case (settle_rejected k ks s)
  then show ?case by (simp add: written_prefix_initial)
next
  case (all_settled rs s)
  then show ?case by simp
next
  case (resolve_normal k rs s s')
  then show ?case using resolve_resource_Normal_data by simp
next
  case (resolve_throw k rs s e s')
  then have "s' = s" by (blast dest: resolve_resource_Throw_state)
  with resolve_throw show ?case
    by (auto simp: written_prefix_def intro!: exI [of _ k])
next
  case (resolved_all rs s)
  then show ?case by (auto simp: written_prefix_def)
qed (simp_all add: fetch_catch_block_def fetch_finally_block_def written_prefix_def split: sum.splits)

lemma cycle_steps_order: "cycle_steps b c c' \<Longrightarrow> order_inv b c \<Longrightarrow> order_inv b c'"
  by (induction rule: rtranclp_induct) (auto intro: cycle_step_order)

lemma order_inv_start: "order_inv b start_config"
  by (simp add: start_config_def)

lemma order_inv_written_prefix: "order_inv b (p, s) \<Longrightarrow> written_prefix b s"
  by (cases p) (simp_all add: written_prefix_initial, auto simp: written_prefix_def)

lemma cycle_awaiting_run:
  "\<forall>k\<in>set ks. \<not> fetch_rejects b k \<Longrightarrow> cycle_steps b (Awaiting ks, s) (Awaiting [], s)"
proof (induction ks)
  case (Cons k ks)
  then have "cycle_step b (Awaiting (k # ks), s) (Awaiting ks, s)"
    using cycle_step.settle_fulfilled [of k "k # ks" b s] by simp
  with Cons show ?case by (auto intro: converse_rtranclp_into_rtranclp)
qed simp

lemma cycle_join_run:
  assumes "promise_all b = Inr rs"
  shows "cycle_steps b start_config (Resolving 0 rs, initial_state)"
proof -
  have "\<forall>k\<in>set [0..<5]. \<not> fetch_rejects b k"
    using assms fetch_rejects_promise_all by fastforce
  then have wait: "cycle_steps b (Awaiting [0..<5], initial_state) (Awaiting [], initial_state)"
    by (rule cycle_awaiting_run)
  have "cycle_step b start_config (Try_entered, initial_state)"
    unfolding start_config_def by (rule cycle_step.effect_fires)
  moreover have "cycle_step b (Try_entered, initial_state) (Awaiting [0..<5], initial_state)"
    using cycle_step.try_start [of b initial_state] by simp
  moreover have "cycle_step b (Awaiting [], initial_state) (Resolving 0 rs, initial_state)"
    using assms by (rule cycle_step.all_settled)
  ultimately show ?thesis
    using wait by (meson converse_rtranclp_into_rtranclp rtranclp.rtrancl_into_rtrancl rtranclp_trans)
qed

text \<open>
  C23 (write order). In every configuration reachable from mount the data holders are a
  prefix of the accepted values of the joined responses: while block \<open>k\<close> is pending,
  exactly the holders before it have been written, each with the body of its ok response
  or its default, and the holders from \<open>k\<close> on still hold their defaults. The
  holders are written one at a time, in the order of the array, never all at once.
\<close>

theorem cycle_writes_in_order:
  assumes "cycle_steps b start_config (p, s)"
  shows "written_prefix b s \<and>
         (\<forall>k rs. p = Resolving k rs \<longrightarrow> portfolio_data_of s = accepted_upto k rs)"
proof -
  have inv: "order_inv b (p, s)"
    using cycle_steps_order [OF assms order_inv_start] .
  then have "written_prefix b s"
    by (rule order_inv_written_prefix)
  with inv show ?thesis by auto
qed

theorem cycle_writes_in_order_witness:
  "cycle_steps server_profile_404 start_config (Resolving 2 responses_404, initial_state\<lparr>skills := [sample_skill]\<rparr>) \<and>
   portfolio_data_of (initial_state\<lparr>skills := [sample_skill]\<rparr>) = accepted_upto 2 responses_404 \<and>
   accepted_upto 2 responses_404 =
     \<lparr>pd_profile = None, pd_skills = [sample_skill], pd_projects = [], pd_hobbies = [], pd_experiences = []\<rparr>"
proof -
  have all: "promise_all server_profile_404 = Inr responses_404"
    by (simp add: promise_all_def server_profile_404_def ok_fetch_def responses_404_def)
  have r0: "resolve_resource 0 responses_404 initial_state = Normal initial_state"
    by (simp add: responses_404_def handle_response_def)
  have r1: "resolve_resource 1 responses_404 initial_state = Normal (initial_state\<lparr>skills := [sample_skill]\<rparr>)"
    by (simp add: responses_404_def handle_response_def)
  have "cycle_steps server_profile_404 start_config (Resolving 0 responses_404, initial_state)"
    using cycle_join_run [OF all] .
  moreover have "cycle_step server_profile_404 (Resolving 0 responses_404, initial_state) (Resolving 1 responses_404, initial_state)"
    using cycle_step.resolve_normal [OF _ r0] by simp
  moreover have "cycle_step server_profile_404 (Resolving 1 responses_404, initial_state)
      (Resolving 2 responses_404, initial_state\<lparr>skills := [sample_skill]\<rparr>)"
    using cycle_step.resolve_normal [OF _ r1] by (simp add: numeral_2_eq_2)
  ultimately have run: "cycle_steps server_profile_404 start_config
      (Resolving 2 responses_404, initial_state\<lparr>skills := [sample_skill]\<rparr>)"
    by (meson rtranclp.rtrancl_into_rtrancl)
  have "portfolio_data_of (initial_state\<lparr>skills := [sample_skill]\<rparr>) = accepted_upto 2 responses_404"
    using cycle_writes_in_order [OF run] by simp
  moreover have "accepted_upto 2 responses_404 =
     \<lparr>pd_profile = None, pd_skills = [sample_skill], pd_projects = [], pd_hobbies = [], pd_experiences = []\<rparr>"
    by (simp add: accepted_upto_def responses_404_def accepted_def)
  ultimately show ?thesis using run by simp
qed

end
