(* ===== verification/Hook_Spec.thy ===== *)
theory Hook_Spec
  imports Hook
begin

text \<open>
  The contract of the aggregation controller as the specification states it (section
  4.2 of \<^verbatim>\<open>spec.md\<close>), and how the hook of
  \<^verbatim>\<open>src/frontend/src/hooks/usePortfolioData.ts\<close> relates to it. The view sees one
  of three states (\<open>view_state\<close>); after the single cycle the contract asks for
  \<open>Ready\<close> with every resource whose fetch rejected, whose response is not ok or whose
  body is malformed at its default, and every other resource holding its body
  (\<open>spec_data\<close>): per-resource soft failure, never the error state for a failure of one
  resource. The refinement theorem says exactly on which backends the hook meets it.
\<close>

datatype view_state = View_loading | View_error string | View_ready portfolio_data

definition view_of :: "portfolio_state \<Rightarrow> view_state" where
  "view_of s =
     (if loading s then View_loading
      else case error s of Some m \<Rightarrow> View_error m | None \<Rightarrow> View_ready (portfolio_data_of s))"

primrec soft_value :: "'a fetch_outcome \<Rightarrow> 'a \<Rightarrow> 'a" where
  "soft_value Network_failure d = d"
| "soft_value (Fulfilled r) d = accepted r d"

definition spec_data :: "server \<Rightarrow> portfolio_data" where
  "spec_data b =
     \<lparr>pd_profile = soft_value (get_profile b) None, pd_skills = soft_value (get_skills b) [],
      pd_projects = soft_value (get_projects b) [], pd_hobbies = soft_value (get_hobbies b) [],
      pd_experiences = soft_value (get_experiences b) []\<rparr>"

lemma usePortfolioData_succeeds:
  assumes "promise_all b = Inr rs" and "responses_decode rs"
  shows "portfolio_data_of (usePortfolioData b) =
    \<lparr>pd_profile = accepted (profileRes rs) None, pd_skills = accepted (skillsRes rs) [],
     pd_projects = accepted (projectsRes rs) [], pd_hobbies = accepted (hobbiesRes rs) [],
     pd_experiences = accepted (experiencesRes rs) []\<rparr>"
  using assms
  by (simp add: usePortfolioData_def fetchPortfolioData_def fetch_try_block_def portfolio_data_of_def
        handle_responses_decode try_catch_finally_Normal fetch_finally_block_def)
     (simp add: initial_state_def)

lemma promise_all_Inr_fields:
  "promise_all b = Inr rs \<Longrightarrow>
   get_profile b = Fulfilled (profileRes rs) \<and> get_skills b = Fulfilled (skillsRes rs) \<and>
   get_projects b = Fulfilled (projectsRes rs) \<and> get_hobbies b = Fulfilled (hobbiesRes rs) \<and>
   get_experiences b = Fulfilled (experiencesRes rs)"
  by (cases "get_profile b"; cases "get_skills b"; cases "get_projects b";
      cases "get_hobbies b"; cases "get_experiences b") (auto simp: promise_all_def)

text \<open>
  C28 (refinement of the specification's contract). The hook ends in the state the
  specification's per-resource contract prescribes exactly when its cycle succeeds: no
  fetch rejects and every ok response has a well-formed body. On every other backend it
  ends in the error state instead.
\<close>

theorem usePortfolioData_refines_spec_iff:
  "view_of (usePortfolioData b) = View_ready (spec_data b) \<longleftrightarrow> cycle_succeeds b"
proof (cases "cycle_succeeds b")
  case True
  then obtain rs where all: "promise_all b = Inr rs" and dec: "responses_decode rs"
    by (auto simp: cycle_succeeds_def split: sum.splits)
  have "spec_data b =
    \<lparr>pd_profile = accepted (profileRes rs) None, pd_skills = accepted (skillsRes rs) [],
     pd_projects = accepted (projectsRes rs) [], pd_hobbies = accepted (hobbiesRes rs) [],
     pd_experiences = accepted (experiencesRes rs) []\<rparr>"
    using promise_all_Inr_fields [OF all] by (simp add: spec_data_def)
  with True show ?thesis
    by (simp add: view_of_def usePortfolioData_loading usePortfolioData_error
        usePortfolioData_succeeds [OF all dec])
next
  case False
  then show ?thesis
    by (simp add: view_of_def usePortfolioData_loading usePortfolioData_error)
qed

theorem usePortfolioData_refines_spec_iff_witness:
  "view_of (usePortfolioData server_profile_404) = View_ready (spec_data server_profile_404) \<and>
   view_of (usePortfolioData server_profile_down) \<noteq> View_ready (spec_data server_profile_down)"
proof -
  have "cycle_succeeds server_profile_404"
    by (simp add: cycle_succeeds_def promise_all_def server_profile_404_def ok_fetch_def
        responses_decode_def decodes_def)
  moreover have "\<not> cycle_succeeds server_profile_down"
    by (simp add: cycle_succeeds_def promise_all_def server_profile_down_def)
  ultimately show ?thesis
    using usePortfolioData_refines_spec_iff [of server_profile_404]
      usePortfolioData_refines_spec_iff [of server_profile_down]
    by simp
qed

end
