(* ===== verification/Spec2Isabelle.thy ===== *)
theory Spec2Isabelle
  imports App_View Hook_Order Hook_Spec
begin

text \<open>
  \<^bold>\<open>A verification library for the portfolio application\<close> (\<^verbatim>\<open>src/frontend/src\<close>,
  a React single-page site in TypeScript).

  \<^bold>\<open>The program.\<close> \<^verbatim>\<open>App.tsx\<close> calls the hook \<^verbatim>\<open>usePortfolioData\<close>
  (\<^verbatim>\<open>hooks/usePortfolioData.ts\<close>), which on mount runs one effect: it issues five
  \<^verbatim>\<open>fetch\<close> calls to the endpoints of \<^verbatim>\<open>constants/api.ts\<close>, joins them with
  \<^verbatim>\<open>Promise.all\<close>, stores each ok response's JSON body in its state holder, and
  clears \<^verbatim>\<open>loading\<close> in a \<^verbatim>\<open>finally\<close> block; any error reaching the
  \<^verbatim>\<open>catch\<close> block sets a fixed error message. \<^verbatim>\<open>App\<close> renders a spinner while
  loading, a full-page error when the error is set, and otherwise the header, the About,
  Skills, Experience, Projects, Hobbies and Contact sections and the footer, each a pure
  function of the holders (\<^verbatim>\<open>components/\<close>). \<^verbatim>\<open>utils/helpers.ts\<close> holds
  formatting helpers and \<^verbatim>\<open>types/portfolio.ts\<close> the data model.

  \<^bold>\<open>Theories.\<close>
  \<^item> \<open>Prelude\<close>: JavaScript completions (normal or thrown, with the state reached),
    \<open>try_catch_finally\<close>, \<open>js_map_result\<close> (\<^verbatim>\<open>Array.map\<close> with a throwing
    callback), truthiness of optional fields, shared list lemmas (permutation of a
    filter partition and of a grouping by key).
  \<^item> \<open>Types\<close>, \<open>Api\<close>: the interfaces as records, the endpoint and status tables.
  \<^item> \<open>Fetch\<close>: the browser's \<^verbatim>\<open>Response\<close>, \<^verbatim>\<open>res.json()\<close>, \<^verbatim>\<open>fetch\<close>
    outcomes and \<^verbatim>\<open>Promise.all\<close> (library behaviour, not repository code).
  \<^item> \<open>Html\<close>: the anchors the page renders (\<open>anchor\<close>: address, label,
    \<^verbatim>\<open>target\<close>, \<^verbatim>\<open>rel\<close>) and the isolation a new tab needs
    (\<open>isolated_new_tab\<close>: \<^verbatim>\<open>noopener\<close> and \<^verbatim>\<open>noreferrer\<close> among the
    \<^verbatim>\<open>rel\<close> tokens).
  \<^item> \<open>Hook\<close>: the hook's state record \<open>portfolio_state\<close> and the statements of
    \<^verbatim>\<open>fetchPortfolioData\<close> (\<open>handle_response\<close> for each guarded block,
    \<open>handle_responses\<close>, \<open>fetch_try_block\<close>, \<open>fetch_catch_block\<close>,
    \<open>fetch_finally_block\<close>), \<open>usePortfolioData\<close> the state after the effect; claims
    C1 to C5 (partial acceptance, transport failure, malformed body, outcome, no
    unhandled rejection).
  \<^item> \<open>Hook_Steps\<close>: the small-step relation \<open>cycle_step\<close> over program points of
    the effect with an arbitrary settlement order of the five fetches; claims C6 to C11
    (refinement to the big-step model, at most 16 steps per run, settling within the
    bound, no deadlock, loading/error discipline, no write before the join). The bound 16
    is the measure \<open>rank\<close>: two steps to enter the try block, one per settled fetch
    (five) and the join, one per guarded block (five) and the end of the block list, the
    catch block and the finally block; every step decreases it.
  \<^item> \<open>Hook_Order\<close>: the invariant \<open>order_inv\<close> of the small-step runs saying
    which holders have been written; claim C23 (the holders are written one at a time
    in the order of the array, each with its accepted value, so the data part is always
    \<open>accepted_upto k rs\<close> for some \<open>k\<close>).
  \<^item> \<open>Hook_Spec\<close>: the specification's contract of the controller (section 4.2 of
    \<^verbatim>\<open>spec.md\<close>) as an abstract view state and the data it prescribes,
    \<open>spec_data\<close>, with every failing resource soft-failed to its default; claim C28
    (the hook meets the contract exactly when its cycle succeeds).
  \<^item> \<open>Js_String\<close>: the string and array built-ins the components call
    (\<^verbatim>\<open>split\<close>, \<^verbatim>\<open>trim\<close>, \<^verbatim>\<open>substring\<close>, \<^verbatim>\<open>charAt\<close>,
    \<^verbatim>\<open>toUpperCase\<close> on ASCII, \<^verbatim>\<open>Array.from(new Set(...))\<close>) with their laws
    (join after split, piece count, trimmed edges, first-occurrence order).
  \<^item> \<open>Helpers\<close>: \<^verbatim>\<open>formatDate\<close>, \<^verbatim>\<open>getProficiencyColor\<close>,
    \<^verbatim>\<open>truncateText\<close>, \<^verbatim>\<open>isValidUrl\<close>, \<^verbatim>\<open>getInitials\<close>; claims C18 to C20.
  \<^item> \<open>Skills\<close>, \<open>Projects\<close>, \<open>Sections\<close>: the sections as functions from the
    holders to the list of what they show; claims C12 to C17 (grouping is a permutation,
    the duplicated colour function equals the helper, the featured/other split is a
    partition, technology tags, current positions end in Present, timeline
    connectors), C26 (the timeline fails to render exactly when the formatter rejects a
    present, non-empty date it has to format), C27 (the helper \<^verbatim>\<open>formatDate\<close> is
    the section's formatter with a catch and a \<^verbatim>\<open>Present\<close> default), C29 (header,
    footer and About show the same name except an empty one) and C32 (no Skills
    category block is empty).
  \<^item> \<open>App_View\<close>: \<^verbatim>\<open>App\<close>'s choice of screen (the \<^verbatim>\<open>LoadingSpinner\<close>
    markup, the fixed error screen, the page it composes), the header's
    \<^verbatim>\<open>scrollToSection\<close> over the ids of the rendered document, and the images,
    anchors and keys of the page; claims C24 (distinct ids give distinct React keys in
    every list), C25 (each navigation button scrolls to its section; Contact only if the
    Contact section renders the id), C30 (no image source or link address of the page
    is empty) and C31 (every link opening a new tab is isolated).
  \<^item> The root theory states C21 (spinner in every configuration before the cycle
    settles) and C22 (the final screen: the page exactly when the cycle succeeds).

  \<^bold>\<open>Modelling choices.\<close> Optional members are options (\<open>None\<close> for
  \<open>undefined\<close> and \<open>null\<close>); JavaScript strings are \<open>string\<close>, with
  non-ASCII literals (the palette emoji, the copyright sign) written as their UTF-8
  bytes; numbers are \<open>int\<close>, \<open>nat\<close> (the year) or \<open>real\<close> (proficiency). The
  setters of React state are applied when called, which is what React renders since the
  effect never reads the holders. Browser services whose results the code does not
  control (date formatting, URL parsing, the clock) are parameters; their errors are
  values so that the code's \<^verbatim>\<open>try\<close>/\<^verbatim>\<open>catch\<close> is modelled as written.
  A render error of the Experience section is kept as a value in the page
  (\<open>page_experience\<close>); in the browser React would unmount the whole application,
  since no error boundary exists.

  \<^bold>\<open>Not modelled.\<close> Markup other than the text, links, ids, keys and ARIA
  attributes the models keep; CSS classes; the animation of smooth scrolling (the
  element scrolled to is modelled, not the motion); the
  \<^verbatim>\<open>console.error\<close> call; the Contact section, whose source is not in the
  repository; Unicode case mapping and Unicode white space beyond ASCII. The
  components' props interfaces and the imports are type declarations only: each view
  takes the props' fields as its arguments, as \<^verbatim>\<open>App\<close> passes them. The browser's
  \<^verbatim>\<open>fetch\<close>, \<^verbatim>\<open>Response\<close> and \<^verbatim>\<open>Promise.all\<close> are modelled from their
  documented behaviour only as far as the hook observes them (resolution, rejection,
  status, body).

  \<^bold>\<open>Findings.\<close> A transport failure of any one fetch makes \<^verbatim>\<open>Promise.all\<close>
  reject and blanks the whole page (C2, C22), and a malformed body of one ok response
  does the same while leaving earlier holders written (C3), where the specification
  asks for per-resource isolation; \<open>loading\<close> is already true at mount (C10);
  \<^verbatim>\<open>truncateText\<close> returns three characters more than its bound (C19); the
  holders are written one by one after the join rather than together (C23); the
  error screen never shows the hook's error message (C22); the helpers of
  \<^verbatim>\<open>utils/helpers.ts\<close> are not used by any component, and the Experience section
  re-implements \<^verbatim>\<open>formatDate\<close> without its catch and default (C27); the Contact
  button scrolls only if the Contact section, whose source is missing, renders the id
  \<^verbatim>\<open>contact\<close> (C25); the hook meets the specification's per-resource contract
  only on backends where no fetch rejects and no ok body is malformed (C28); an empty
  \<^verbatim>\<open>fullName\<close> shows as \<^verbatim>\<open>Portfolio\<close> in the header and footer and as an
  empty heading in About (C29).
\<close>

text \<open>
  C21 (spinner while loading). In every configuration of the fetch cycle reachable from
  mount that has not settled, the application renders the loading spinner: no
  partially loaded data and no error is ever shown before the cycle ends.
\<close>

theorem app_spinner_until_settled:
  assumes "cycle_steps b start_config (p, s)" and "p \<noteq> Settled"
  shows "App_view fmt year s = Loading_spinner LoadingSpinner"
proof -
  have "cycle_inv (p, s)"
    using cycle_steps_inv [OF assms(1) cycle_inv_start] .
  with assms(2) show ?thesis
    by (simp add: cycle_inv_def App_view_def)
qed

theorem app_spinner_until_settled_witness:
  "cycle_steps server_profile_404 start_config (Mounted, initial_state) \<and>
   App_view iso_month 2026 initial_state = Loading_spinner LoadingSpinner"
  using app_spinner_until_settled [of server_profile_404 Mounted initial_state]
  by (simp add: start_config_def)

text \<open>
  C22 (final screen). Once the cycle has settled, the application shows the full page
  built from the hook's state exactly when the cycle succeeded, and otherwise the
  full-page error with its fixed heading and hint (not the hook's error message): a
  single failed fetch or a single malformed body replaces every section, including
  those whose data did arrive.
\<close>

theorem app_final_screen:
  "App_view fmt year (usePortfolioData b) =
     (if cycle_succeeds b then Portfolio_page (page_of fmt year (usePortfolioData b))
      else Load_error_screen load_error_heading load_error_hint)"
  by (simp add: App_view_def usePortfolioData_loading usePortfolioData_error failed_msg_def)

end
